theory Spec2Isabelle
  imports Complex_Main
begin

section \<open>The effect and animation state machine of claude\_screensaver.py\<close>

text \<open>
  A shallow embedding of \<^verbatim>\<open>src/claude_screensaver.py\<close>: the dataclasses
  \<^verbatim>\<open>EyeState\<close> and \<^verbatim>\<open>StarState\<close>, the methods of \<^verbatim>\<open>ClaudeScreensaver\<close> that
  read or write the simulation state, and the HTTP handler \<^verbatim>\<open>manipulate_star\<close>.

  Conventions.
  \<^item> Python floats held in the state are modelled as \<^typ>\<open>real\<close>: rounding is not
    modelled, so equalities between computed numbers are those of exact arithmetic.
  \<^item> Every call of \<^verbatim>\<open>time.time()\<close> and of \<^verbatim>\<open>random.random()\<close> is an explicit
    argument of the function that makes the call.
  \<^item> A raised exception is the \<open>Inl\<close> branch of a sum; the state is then the one
    before the call, since every raise of the source precedes the first assignment.
  \<^item> A leading underscore of a method name is dropped (\<^verbatim>\<open>_update_effects\<close> is
    \<open>update_effects\<close>).
  \<^item> Rendering (pygame, cairosvg) and logging have no effect on the state and are left out.
\<close>

subsection \<open>Constants\<close>

definition STAR_BASE_SIZE :: real where "STAR_BASE_SIZE = 240"
definition DEFAULT_COLOR :: string where "DEFAULT_COLOR = ''#c04015''"
definition SNARKY_COLOR :: string where "SNARKY_COLOR = ''#b8230e''"
definition EYE_GRAVITY :: real where "EYE_GRAVITY = 0.008"
definition EYE_FRICTION :: real where "EYE_FRICTION = 0.96"
definition SPIN_THRESHOLD :: real where "SPIN_THRESHOLD = 2.0"

text \<open>
  \<^verbatim>\<open>self.default_rotation_speed\<close> is assigned once, in \<^verbatim>\<open>__init__\<close>, and never written
  again; it is a constant of the model.
\<close>

definition default_rotation_speed :: real where "default_rotation_speed = 0.5"

subsection \<open>Data model\<close>

record EyeState =
  angle :: real
  velocity :: real

definition EyeState_default :: EyeState where
  "EyeState_default = \<lparr>angle = pi / 2, velocity = 0\<rparr>"

record StarState =
  x :: real
  y :: real
  vx :: real
  vy :: real
  current_scale :: real
  target_scale :: real
  rotation_angle :: real
  rotation_speed :: real
  color :: string
  opacity :: real
  heartbeat_pulse :: real
  wall_impact :: real
  eyes_enabled :: bool
  left_eye :: EyeState
  right_eye :: EyeState
  effect_active :: "string option"
  effect_start_time :: real
  spin_out_phase :: "string option"
  spin_out_ramp_start :: real
  corner_trapped :: bool
  trap_corner_x :: real
  trap_corner_y :: real
  saved_vx :: real
  saved_vy :: real
  shrink_end_time :: real
  color_end_time :: real
  opacity_end_time :: real
  drill_end_time :: real
  drill_saved_vx :: real
  drill_saved_vy :: real

definition StarState_default :: StarState where
  "StarState_default =
     \<lparr>x = 0, y = 0, vx = 0.5, vy = 0.5,
      current_scale = 1.0, target_scale = 1.0, rotation_angle = 0.0, rotation_speed = 0.5,
      color = DEFAULT_COLOR, opacity = 1.0,
      heartbeat_pulse = 0.0, wall_impact = 0.0,
      eyes_enabled = False, left_eye = EyeState_default, right_eye = EyeState_default,
      effect_active = None, effect_start_time = 0.0,
      spin_out_phase = None, spin_out_ramp_start = 0.0,
      corner_trapped = False, trap_corner_x = 0, trap_corner_y = 0,
      saved_vx = 0, saved_vy = 0,
      shrink_end_time = 0.0, color_end_time = 0.0, opacity_end_time = 0.0,
      drill_end_time = 0.0, drill_saved_vx = 0, drill_saved_vy = 0\<rparr>"

text \<open>
  The fields of \<^verbatim>\<open>ClaudeScreensaver\<close> that the simulation reads: the display size
  (Python ints, fixed by \<^verbatim>\<open>initialize\<close>) and the state.
\<close>

record ClaudeScreensaver =
  fullscreen :: bool
  running :: bool
  display_width :: int
  display_height :: int
  state :: StarState

text \<open>\<^verbatim>\<open>__init__\<close> followed by \<^verbatim>\<open>initialize\<close> on a display of the given size.\<close>

definition initialize :: "bool \<Rightarrow> int \<Rightarrow> int \<Rightarrow> ClaudeScreensaver" where
  "initialize fs w h =
     \<lparr>fullscreen = fs, running = True, display_width = w, display_height = h,
      state = StarState_default\<lparr>x := real_of_int w / 2, y := real_of_int h / 2\<rparr>\<rparr>"

subsection \<open>Python values of a request\<close>

text \<open>
  A float of a request body may be infinite or not a number (Python's \<^verbatim>\<open>json\<close> reads
  \<^verbatim>\<open>Infinity\<close> and \<^verbatim>\<open>NaN\<close>); a \<^verbatim>\<open>dict\<close> is the list of its items, keys distinct.
\<close>

datatype pyfloat = Finite real | PosInf | NegInf | NaN

datatype pyval =
    PNone
  | PBool bool
  | PInt int
  | PFloat pyfloat
  | PStr string
  | PList "pyval list"
  | PDict "(string \<times> pyval) list"

datatype py_error = AttributeError | TypeError | ValueError | OverflowError

text \<open>Truth value of a Python object, as \<^verbatim>\<open>bool(v)\<close>, \<^verbatim>\<open>not v\<close> and \<^verbatim>\<open>v or d\<close> use it.\<close>

fun py_bool :: "pyval \<Rightarrow> bool" where
  "py_bool PNone = False"
| "py_bool (PBool b) = b"
| "py_bool (PInt n) = (n \<noteq> 0)"
| "py_bool (PFloat f) = (f \<noteq> Finite 0)"
| "py_bool (PStr s) = (s \<noteq> [])"
| "py_bool (PList vs) = (vs \<noteq> [])"
| "py_bool (PDict kvs) = (kvs \<noteq> [])"

text \<open>\<^verbatim>\<open>a < b\<close> on floats: every comparison with NaN is false.\<close>

fun float_lt :: "pyfloat \<Rightarrow> pyfloat \<Rightarrow> bool" where
  "float_lt NaN _ = False"
| "float_lt _ NaN = False"
| "float_lt (Finite a) (Finite b) = (a < b)"
| "float_lt (Finite a) PosInf = True"
| "float_lt (Finite a) NegInf = False"
| "float_lt PosInf _ = False"
| "float_lt NegInf NegInf = False"
| "float_lt NegInf _ = True"

text \<open>
  The builtins \<^verbatim>\<open>min(a, b)\<close> and \<^verbatim>\<open>max(a, b)\<close>: the first argument is kept unless
  the second is strictly smaller (greater).
\<close>

definition py_min :: "pyfloat \<Rightarrow> pyfloat \<Rightarrow> pyfloat" where
  "py_min a b = (if float_lt b a then b else a)"

definition py_max :: "pyfloat \<Rightarrow> pyfloat \<Rightarrow> pyfloat" where
  "py_max a b = (if float_lt a b then b else a)"

text \<open>
  \<^verbatim>\<open>float(v)\<close>. An int converts when it rounds to a finite double, that is when its
  magnitude is below \<open>2^1024 - 2^970\<close> (the value is kept exact here); a larger one
  raises \<^verbatim>\<open>OverflowError\<close>. The parser of \<^verbatim>\<open>float(str)\<close> is a parameter: \<open>None\<close> is
  its \<^verbatim>\<open>ValueError\<close>.
\<close>

definition int_float_limit :: int where
  "int_float_limit = 2 ^ 1024 - 2 ^ 970"

fun py_float :: "(string \<Rightarrow> pyfloat option) \<Rightarrow> pyval \<Rightarrow> py_error + pyfloat" where
  "py_float sf PNone = Inl TypeError"
| "py_float sf (PBool b) = Inr (Finite (if b then 1 else 0))"
| "py_float sf (PInt n) =
     (if \<bar>n\<bar> < int_float_limit then Inr (Finite (real_of_int n)) else Inl OverflowError)"
| "py_float sf (PFloat f) = Inr f"
| "py_float sf (PStr s) = (case sf s of None \<Rightarrow> Inl ValueError | Some f \<Rightarrow> Inr f)"
| "py_float sf (PList vs) = Inl TypeError"
| "py_float sf (PDict kvs) = Inl TypeError"

text \<open>The value of a float that is finite (others do not reach the state, see below).\<close>

fun finite_val :: "pyfloat \<Rightarrow> real" where
  "finite_val (Finite r) = r"
| "finite_val _ = 0"

text \<open>
  \<^verbatim>\<open>parameters = parameters or {}\<close> followed by \<^verbatim>\<open>parameters.get(key, default)\<close>:
  a false value is replaced by the empty dict; a true value that is not a dict has no
  \<^verbatim>\<open>get\<close>.
\<close>

definition params_get :: "pyval \<Rightarrow> string \<Rightarrow> pyval \<Rightarrow> py_error + pyval" where
  "params_get parameters key dflt =
     (if \<not> py_bool parameters then Inr dflt
      else case parameters of
             PDict kvs \<Rightarrow> (case map_of kvs key of None \<Rightarrow> Inr dflt | Some v \<Rightarrow> Inr v)
           | _ \<Rightarrow> Inl AttributeError)"

subsection \<open>Cancelling effects\<close>

text \<open>\<^verbatim>\<open>if self.state.spin_out_phase:\<close> is true of a non-empty string.\<close>

definition phase_truthy :: "string option \<Rightarrow> bool" where
  "phase_truthy p = (case p of None \<Rightarrow> False | Some s \<Rightarrow> s \<noteq> [])"

definition cancel_spin_out :: "StarState \<Rightarrow> StarState" where
  "cancel_spin_out st =
     (if phase_truthy (spin_out_phase st)
      then st\<lparr>spin_out_phase := None, rotation_speed := default_rotation_speed\<rparr>
      else st)"

text \<open>The argument \<open>now\<close> is the value of \<^verbatim>\<open>time.time()\<close> read inside \<^verbatim>\<open>_cancel_drill\<close>.\<close>

definition cancel_drill :: "real \<Rightarrow> StarState \<Rightarrow> StarState" where
  "cancel_drill now st =
     (if drill_end_time st > now
      then st\<lparr>drill_end_time := 0,
              vx := drill_saved_vx st,
              vy := drill_saved_vy st,
              rotation_speed := default_rotation_speed\<rparr>
      else st)"

definition reset_state :: "StarState \<Rightarrow> StarState" where
  "reset_state st =
     st\<lparr>target_scale := 1.0,
        current_scale := 1.0,
        rotation_speed := default_rotation_speed,
        color := DEFAULT_COLOR,
        opacity := 1.0,
        effect_active := None,
        corner_trapped := False,
        spin_out_phase := None,
        shrink_end_time := 0,
        color_end_time := 0,
        opacity_end_time := 0,
        drill_end_time := 0,
        vx := 0.5,
        vy := 0.5,
        eyes_enabled := False,
        left_eye := EyeState_default,
        right_eye := EyeState_default\<rparr>"

subsection \<open>The nearest corner\<close>

text \<open>
  The loop of the \<^verbatim>\<open>corner_trap\<close> branch over the list of corners; the accumulator is
  \<^verbatim>\<open>(min_dist, nearest)\<close>, with \<open>None\<close> for \<^verbatim>\<open>float('inf')\<close>.
\<close>

definition corners :: "ClaudeScreensaver \<Rightarrow> (int \<times> int) list" where
  "corners self =
     [(50, 50),
      (display_width self - 50, 50),
      (50, display_height self - 50),
      (display_width self - 50, display_height self - 50)]"

definition corner_dist :: "real \<Rightarrow> real \<Rightarrow> int \<times> int \<Rightarrow> real" where
  "corner_dist px py c =
     sqrt ((px - real_of_int (fst c)) ^ 2 + (py - real_of_int (snd c)) ^ 2)"

definition lt_min_dist :: "real \<Rightarrow> real option \<Rightarrow> bool" where
  "lt_min_dist d m = (case m of None \<Rightarrow> True | Some md \<Rightarrow> d < md)"

fun nearest_loop ::
  "real \<Rightarrow> real \<Rightarrow> (int \<times> int) list \<Rightarrow> real option \<times> (int \<times> int) \<Rightarrow> real option \<times> (int \<times> int)"
where
  "nearest_loop px py [] acc = acc"
| "nearest_loop px py (c # cs) (min_dist, nearest) =
     (if lt_min_dist (corner_dist px py c) min_dist
      then nearest_loop px py cs (Some (corner_dist px py c), c)
      else nearest_loop px py cs (min_dist, nearest))"

definition nearest_corner :: "ClaudeScreensaver \<Rightarrow> int \<times> int" where
  "nearest_corner self =
     snd (nearest_loop (x (state self)) (y (state self)) (corners self)
            (None, hd (corners self)))"

subsection \<open>manipulate\<close>

text \<open>
  \<open>current_time\<close> is the clock read on entry; \<open>cancel_time\<close> is the later reading inside
  \<^verbatim>\<open>_cancel_drill\<close>, used by the \<^verbatim>\<open>spin_out\<close> branch only. An action that matches no
  branch falls through: the method returns without touching the state and without an error.
\<close>

definition manipulate ::
  "(string \<Rightarrow> pyfloat option) \<Rightarrow> real \<Rightarrow> real \<Rightarrow> string \<Rightarrow> pyval \<Rightarrow> ClaudeScreensaver
     \<Rightarrow> py_error + ClaudeScreensaver"
where
  "manipulate sf current_time cancel_time action parameters self =
     (let st = state self in
      if action = ''shrink'' then
        Inr (self\<lparr>state := st\<lparr>target_scale := 0.2,
                                shrink_end_time := current_time + 15.0,
                                effect_active := Some ''shrink''\<rparr>\<rparr>)
      else if action = ''spin_out'' then
        Inr (self\<lparr>state := (cancel_spin_out (cancel_drill cancel_time st))
                               \<lparr>rotation_speed := 1.0,
                                spin_out_phase := Some ''ramp'',
                                spin_out_ramp_start := current_time,
                                effect_active := Some ''spin_out''\<rparr>\<rparr>)
      else if action = ''drill'' then
        (let st1 = cancel_spin_out st in
         Inr (self\<lparr>state := st1\<lparr>drill_saved_vx := vx st1,
                                  drill_saved_vy := vy st1,
                                  vx := 0,
                                  vy := 0,
                                  rotation_speed := 10.0,
                                  drill_end_time := current_time + 3.0,
                                  effect_active := Some ''drill''\<rparr>\<rparr>))
      else if action = ''corner_trap'' then
        (let nearest = nearest_corner self in
         Inr (self\<lparr>state := st\<lparr>saved_vx := vx st,
                                 saved_vy := vy st,
                                 vx := 0,
                                 vy := 0,
                                 corner_trapped := True,
                                 trap_corner_x := real_of_int (fst nearest),
                                 trap_corner_y := real_of_int (snd nearest),
                                 effect_active := Some ''corner_trap'',
                                 effect_start_time := current_time\<rparr>\<rparr>))
      else if action = ''color'' then
        (case params_get parameters ''color'' (PStr DEFAULT_COLOR) of
           Inl e \<Rightarrow> Inl e
         | Inr (PStr c) \<Rightarrow>
             Inr (self\<lparr>state := st\<lparr>color := (if c \<noteq> [] \<and> hd c = CHR ''#'' then c else CHR ''#'' # c),
                                     color_end_time := current_time + 15.0\<rparr>\<rparr>)
         | Inr _ \<Rightarrow> Inl AttributeError)
      else if action = ''opacity'' then
        (case params_get parameters ''opacity'' (PFloat (Finite 1.0)) of
           Inl e \<Rightarrow> Inl e
         | Inr v \<Rightarrow>
             (case py_float sf v of
                Inl e \<Rightarrow> Inl e
              | Inr f \<Rightarrow>
                  Inr (self\<lparr>state := st\<lparr>opacity := finite_val (py_max (Finite 0.0) (py_min (Finite 1.0) f)),
                                          opacity_end_time := current_time + 15.0\<rparr>\<rparr>)))
      else if action = ''googly_eyes'' then
        (case params_get parameters ''enabled'' (PBool True) of
           Inl e \<Rightarrow> Inl e
         | Inr v \<Rightarrow> Inr (self\<lparr>state := st\<lparr>eyes_enabled := py_bool v\<rparr>\<rparr>))
      else if action = ''reset'' then
        Inr (self\<lparr>state := reset_state st\<rparr>)
      else Inr self)"

subsection \<open>The heartbeat\<close>

text \<open>Python's \<^verbatim>\<open>a % b\<close> on floats with \<open>b > 0\<close>: the remainder of flooring division.\<close>

definition fmod :: "real \<Rightarrow> real \<Rightarrow> real" where
  "fmod a b = a - b * real_of_int \<lfloor>a / b\<rfloor>"

definition update_heartbeat :: "real \<Rightarrow> StarState \<Rightarrow> StarState" where
  "update_heartbeat current_time st =
     (let cycle_duration = 4.0;
          phase = fmod current_time cycle_duration / cycle_duration
      in st\<lparr>heartbeat_pulse :=
               (if phase < 0.125 then sin (phase / 0.125 * pi)
                else if phase < 0.2 then sin ((phase - 0.125) / 0.075 * pi) * 0.25
                else 0.0)\<rparr>)"

subsection \<open>Time-based effects\<close>

text \<open>
  \<^verbatim>\<open>_update_effects\<close> is a sequence of seven independent blocks; each is a function
  here, in the order of the source, and \<open>update_effects\<close> composes them.
\<close>

definition decay_wall_impact :: "StarState \<Rightarrow> StarState" where
  "decay_wall_impact st = st\<lparr>wall_impact := wall_impact st * 0.85\<rparr>"

definition expire_shrink :: "real \<Rightarrow> StarState \<Rightarrow> StarState" where
  "expire_shrink current_time st =
     (if shrink_end_time st > 0 \<and> current_time \<ge> shrink_end_time st
      then st\<lparr>shrink_end_time := 0,
              target_scale := 1.0,
              effect_active := (if effect_active st = Some ''shrink'' then None
                                else effect_active st)\<rparr>
      else st)"

definition expire_color :: "real \<Rightarrow> StarState \<Rightarrow> StarState" where
  "expire_color current_time st =
     (if color_end_time st > 0 \<and> current_time \<ge> color_end_time st
      then st\<lparr>color_end_time := 0, color := DEFAULT_COLOR\<rparr>
      else st)"

definition expire_opacity :: "real \<Rightarrow> StarState \<Rightarrow> StarState" where
  "expire_opacity current_time st =
     (if opacity_end_time st > 0 \<and> current_time \<ge> opacity_end_time st
      then st\<lparr>opacity_end_time := 0, opacity := 1.0\<rparr>
      else st)"

definition expire_drill :: "real \<Rightarrow> StarState \<Rightarrow> StarState" where
  "expire_drill current_time st =
     (if drill_end_time st > 0 \<and> current_time \<ge> drill_end_time st
      then st\<lparr>vx := drill_saved_vx st,
              vy := drill_saved_vy st,
              rotation_speed := default_rotation_speed,
              drill_end_time := 0,
              effect_active := (if effect_active st = Some ''drill'' then None
                                else effect_active st)\<rparr>
      else st)"

definition expire_corner_trap :: "real \<Rightarrow> StarState \<Rightarrow> StarState" where
  "expire_corner_trap current_time st =
     (if corner_trapped st \<and> current_time - effect_start_time st \<ge> 10.0
      then st\<lparr>corner_trapped := False,
              vx := saved_vx st,
              vy := saved_vy st,
              effect_active := (if effect_active st = Some ''corner_trap'' then None
                                else effect_active st)\<rparr>
      else st)"

definition update_spin_out :: "real \<Rightarrow> StarState \<Rightarrow> StarState" where
  "update_spin_out current_time st =
     (if spin_out_phase st = Some ''ramp'' then
        (let elapsed = current_time - spin_out_ramp_start st in
         if elapsed < 2.0 then st\<lparr>rotation_speed := 1.0 + (elapsed * 5.0)\<rparr>
         else st\<lparr>spin_out_phase := Some ''decay''\<rparr>)
      else if spin_out_phase st = Some ''decay'' then
        (let st1 = st\<lparr>rotation_speed := rotation_speed st * 0.992\<rparr> in
         if rotation_speed st1 < 0.1
         then st1\<lparr>rotation_speed := default_rotation_speed,
                  spin_out_phase := None,
                  effect_active := (if effect_active st1 = Some ''spin_out'' then None
                                    else effect_active st1)\<rparr>
         else st1)
      else st)"

definition update_effects :: "real \<Rightarrow> StarState \<Rightarrow> StarState" where
  "update_effects current_time st =
     update_spin_out current_time
       (expire_corner_trap current_time
         (expire_drill current_time
           (expire_opacity current_time
             (expire_color current_time
               (expire_shrink current_time
                 (decay_wall_impact st))))))"

subsection \<open>Eye physics\<close>

text \<open>
  The two \<^verbatim>\<open>while\<close> loops that bring an angle difference back into \<open>[-pi, pi]\<close>.
\<close>

function norm_down :: "real \<Rightarrow> real" where
  "norm_down d = (if d > pi then norm_down (d - pi * 2) else d)"
  by pat_completeness auto

function norm_up :: "real \<Rightarrow> real" where
  "norm_up d = (if d < - pi then norm_up (d + pi * 2) else d)"
  by pat_completeness auto

termination norm_down
  apply (relation "measure (\<lambda>d. nat \<lceil>d / (2 * pi)\<rceil>)")
   apply simp
  apply (simp only: in_measure)
  subgoal premises prems for d
  proof -
    have e: "(d - pi * 2) / (2 * pi) = d / (2 * pi) - 1"
      by (simp add: field_simps)
    have "0 < d" using prems pi_gt_zero by linarith
    then have "0 < d / (2 * pi)" by (intro divide_pos_pos) simp_all
    then have "1 \<le> \<lceil>d / (2 * pi)\<rceil>" by linarith
    then show ?thesis unfolding e by simp
  qed
  done

termination norm_up
  apply (relation "measure (\<lambda>d. nat \<lceil>(- d) / (2 * pi)\<rceil>)")
   apply simp
  apply (simp only: in_measure)
  subgoal premises prems for d
  proof -
    have e: "(- (d + pi * 2)) / (2 * pi) = (- d) / (2 * pi) - 1"
      by (simp add: field_simps)
    have "0 < - d" using prems pi_gt_zero by linarith
    then have "0 < (- d) / (2 * pi)" by (intro divide_pos_pos) simp_all
    then have "1 \<le> \<lceil>(- d) / (2 * pi)\<rceil>" by linarith
    then show ?thesis unfolding e by simp
  qed
  done

text \<open>
  One eye's update. The source writes the block twice, for the left eye with the outward
  target \<open>pi\<close> and for the right eye with the outward target \<open>0\<close>.
\<close>

definition eye_step :: "real \<Rightarrow> real \<Rightarrow> real \<Rightarrow> real \<Rightarrow> real \<Rightarrow> EyeState \<Rightarrow> EyeState" where
  "eye_step local_gravity_target outward_target centrifugal_force heartbeat_kick impact_kick eye =
     (let gravity_diff = norm_up (norm_down (local_gravity_target - angle eye));
          centrifugal_diff = norm_up (norm_down (outward_target - angle eye));
          v1 = velocity eye + ((gravity_diff * EYE_GRAVITY) + (centrifugal_diff * centrifugal_force));
          v2 = v1 - heartbeat_kick;
          v3 = v2 - impact_kick;
          v4 = v3 * EYE_FRICTION
      in eye\<lparr>velocity := v4, angle := angle eye + v4\<rparr>)"

definition radians :: "real \<Rightarrow> real" where
  "radians deg = deg * pi / 180"

definition update_eye_physics :: "StarState \<Rightarrow> StarState" where
  "update_eye_physics st =
     (if \<not> eyes_enabled st then st
      else
        let star_rot_rad = radians (rotation_angle st);
            local_gravity_target = (pi / 2) - star_rot_rad;
            centrifugal_force =
              (if \<bar>rotation_speed st\<bar> > SPIN_THRESHOLD then \<bar>rotation_speed st\<bar> * 0.05 else 0.0);
            heartbeat_kick = heartbeat_pulse st * 0.0069;
            impact_kick = wall_impact st
        in st\<lparr>left_eye :=
                 eye_step local_gravity_target pi centrifugal_force heartbeat_kick impact_kick
                   (left_eye st),
               right_eye :=
                 eye_step local_gravity_target 0.0 centrifugal_force heartbeat_kick impact_kick
                   (right_eye st)\<rparr>)"

subsection \<open>Bouncing\<close>

text \<open>
  One axis of \<^verbatim>\<open>_update_bouncing_position\<close>: from the position, the velocity, the radius
  and the extent of the display on that axis, the new velocity, the new position and
  whether a wall was hit.
\<close>

definition bounce_axis :: "real \<Rightarrow> real \<Rightarrow> real \<Rightarrow> int \<Rightarrow> real \<times> real \<times> bool" where
  "bounce_axis p v radius extent =
     (let next = p + v; padding = 4 in
      if next - radius < padding then (\<bar>v\<bar>, radius + padding, True)
      else if next + radius > real_of_int extent - padding
      then (- \<bar>v\<bar>, real_of_int extent - padding - radius, True)
      else (v, next, False))"

definition hit_wall :: "ClaudeScreensaver \<Rightarrow> bool" where
  "hit_wall self =
     (let st = state self; radius = STAR_BASE_SIZE * current_scale st / 2 in
      snd (snd (bounce_axis (x st) (vx st) radius (display_width self))) \<or>
      snd (snd (bounce_axis (y st) (vy st) radius (display_height self))))"

definition update_bouncing_position :: "ClaudeScreensaver \<Rightarrow> ClaudeScreensaver" where
  "update_bouncing_position self =
     (let st = state self;
          radius = STAR_BASE_SIZE * current_scale st / 2;
          bx = bounce_axis (x st) (vx st) radius (display_width self);
          by = bounce_axis (y st) (vy st) radius (display_height self)
      in self\<lparr>state := st\<lparr>vx := fst bx,
                            vy := fst by,
                            wall_impact := (if hit_wall self then 0.02 else wall_impact st),
                            x := fst (snd bx),
                            y := fst (snd by)\<rparr>\<rparr>)"

subsection \<open>One frame\<close>

text \<open>
  What \<^verbatim>\<open>update\<close> reads from outside in one call: the clock in \<^verbatim>\<open>_update_heartbeat\<close>,
  the clock in \<^verbatim>\<open>_update_effects\<close>, and the two values of \<^verbatim>\<open>random.random()\<close> of the
  jitter.
\<close>

record frame =
  heartbeat_time :: real
  effects_time :: real
  random_x :: real
  random_y :: real

text \<open>The scale and rotation part of \<^verbatim>\<open>update\<close>, between the effects and the position.\<close>

definition update_scale_rotation :: "StarState \<Rightarrow> StarState" where
  "update_scale_rotation st =
     (let st1 = (if shrink_end_time st = 0
                 then st\<lparr>target_scale := 1.0 + (heartbeat_pulse st * 0.08)\<rparr> else st);
          st2 = st1\<lparr>current_scale := current_scale st1 + (target_scale st1 - current_scale st1) * 0.15\<rparr>
      in st2\<lparr>rotation_angle := rotation_angle st2 + rotation_speed st2\<rparr>)"

text \<open>The position part of \<^verbatim>\<open>update\<close>: jitter, nothing, or bouncing.\<close>

definition update_position :: "real \<Rightarrow> real \<Rightarrow> ClaudeScreensaver \<Rightarrow> ClaudeScreensaver" where
  "update_position rx ry self =
     (let st = state self in
      if corner_trapped st
      then self\<lparr>state := st\<lparr>x := trap_corner_x st + (rx - 0.5) * 40,
                              y := trap_corner_y st + (ry - 0.5) * 40\<rparr>\<rparr>
      else if drill_end_time st = 0 then update_bouncing_position self
      else self)"

definition update :: "frame \<Rightarrow> ClaudeScreensaver \<Rightarrow> ClaudeScreensaver" where
  "update f self =
     (let self1 = self\<lparr>state := update_scale_rotation
                                   (update_effects (effects_time f)
                                      (update_heartbeat (heartbeat_time f) (state self)))\<rparr>;
          self2 = update_position (random_x f) (random_y f) self1
      in self2\<lparr>state := update_eye_physics (state self2)\<rparr>)"

text \<open>A run of frames with no command in between.\<close>

fun run_frames :: "frame list \<Rightarrow> ClaudeScreensaver \<Rightarrow> ClaudeScreensaver" where
  "run_frames [] self = self"
| "run_frames (f # fs) self = run_frames fs (update f self)"

subsection \<open>Status and the HTTP handler\<close>

text \<open>
  \<^verbatim>\<open>get_status\<close>: the values of the returned dict, in the order of its keys (position,
  velocity, scale, rotation, rotation\_speed, color, opacity, effect\_active,
  corner\_trapped, eyes\_enabled, heartbeat\_pulse, wall\_impact, display\_size).
\<close>

definition get_status ::
  "ClaudeScreensaver \<Rightarrow>
     (real \<times> real) \<times> (real \<times> real) \<times> real \<times> real \<times> real \<times> string \<times> real \<times> string option \<times> bool
       \<times> bool \<times> real \<times> real \<times> (int \<times> int)"
where
  "get_status self =
     (let st = state self in
      ((x st, y st), (vx st, vy st), current_scale st, rotation_angle st, rotation_speed st,
       color st, opacity st, effect_active st, corner_trapped st, eyes_enabled st,
       heartbeat_pulse st, wall_impact st, (display_width self, display_height self)))"

definition valid_actions :: "string list" where
  "valid_actions =
     [''shrink'', ''spin_out'', ''drill'', ''corner_trap'', ''color'', ''opacity'',
      ''googly_eyes'', ''reset'']"

text \<open>
  \<^verbatim>\<open>manipulate_star\<close>, on the global \<^verbatim>\<open>screensaver\<close> (\<open>None\<close> before \<^verbatim>\<open>main\<close> sets it)
  and the two entries that it reads from the JSON body: \<^verbatim>\<open>data.get("action")\<close> (\<open>PNone\<close>
  when absent) and \<^verbatim>\<open>data.get("parameters", {})\<close>. The result is the HTTP status code
  with the global afterwards; an exception raised by \<^verbatim>\<open>manipulate\<close> is answered by the
  framework with status 500.
\<close>

definition manipulate_star ::
  "(string \<Rightarrow> pyfloat option) \<Rightarrow> real \<Rightarrow> real \<Rightarrow> pyval \<Rightarrow> pyval \<Rightarrow> ClaudeScreensaver option
     \<Rightarrow> nat \<times> ClaudeScreensaver option"
where
  "manipulate_star sf current_time cancel_time action parameters screensaver =
     (case screensaver of
        None \<Rightarrow> (503, None)
      | Some self \<Rightarrow>
          if \<not> py_bool action then (400, Some self)
          else (case action of
                  PStr a \<Rightarrow>
                    if a \<notin> set valid_actions then (400, Some self)
                    else (case manipulate sf current_time cancel_time a parameters self of
                            Inl e \<Rightarrow> (500, Some self)
                          | Inr self' \<Rightarrow> (200, Some self'))
                | _ \<Rightarrow> (400, Some self)))"

text \<open>\<^verbatim>\<open>reset_star\<close> calls \<^verbatim>\<open>manipulate("reset")\<close>, with \<^verbatim>\<open>parameters\<close> left at \<^verbatim>\<open>None\<close>.\<close>

definition reset_star ::
  "(string \<Rightarrow> pyfloat option) \<Rightarrow> real \<Rightarrow> real \<Rightarrow> ClaudeScreensaver option
     \<Rightarrow> nat \<times> ClaudeScreensaver option"
where
  "reset_star sf current_time cancel_time screensaver =
     (case screensaver of
        None \<Rightarrow> (503, None)
      | Some self \<Rightarrow>
          (case manipulate sf current_time cancel_time ''reset'' PNone self of
             Inl e \<Rightarrow> (500, Some self)
           | Inr self' \<Rightarrow> (200, Some self')))"

subsection \<open>Runs of the program\<close>

text \<open>
  Whether the bouncing step of a frame runs and hits a wall: the test of \<^verbatim>\<open>hit_wall\<close>
  in \<^verbatim>\<open>_update_bouncing_position\<close>, on the state that \<^verbatim>\<open>update\<close> hands to it.
\<close>

definition before_position :: "frame \<Rightarrow> ClaudeScreensaver \<Rightarrow> ClaudeScreensaver" where
  "before_position f self =
     self\<lparr>state := update_scale_rotation
                      (update_effects (effects_time f)
                         (update_heartbeat (heartbeat_time f) (state self)))\<rparr>"

definition frame_collides :: "frame \<Rightarrow> ClaudeScreensaver \<Rightarrow> bool" where
  "frame_collides f self =
     (let m = before_position f self in
      \<not> corner_trapped (state m) \<and> drill_end_time (state m) = 0 \<and> hit_wall m)"

fun no_collision :: "frame list \<Rightarrow> ClaudeScreensaver \<Rightarrow> bool" where
  "no_collision [] self = True"
| "no_collision (f # fs) self = (\<not> frame_collides f self \<and> no_collision fs (update f self))"

text \<open>\<^verbatim>\<open>random.random()\<close> returns a float in \<open>[0, 1)\<close>.\<close>

definition random_ok :: "frame \<Rightarrow> bool" where
  "random_ok f = (0 \<le> random_x f \<and> random_x f < 1 \<and> 0 \<le> random_y f \<and> random_y f < 1)"

text \<open>
  The states that the running program can be in, each with the latest reading of the
  clock made under the lock. The clock is the time since the epoch: positive, and taken as
  never running backwards. \<^verbatim>\<open>manipulate\<close> reads \<open>current_time\<close> before it takes the lock,
  so that reading may be older than the frames run meanwhile; the reading inside
  \<^verbatim>\<open>_cancel_drill\<close> is made under the lock.
\<close>

inductive reachable :: "real \<Rightarrow> ClaudeScreensaver \<Rightarrow> bool" where
  start: "0 < c \<Longrightarrow> reachable c (initialize fs w h)"
| command:
    "reachable c self \<Longrightarrow> 0 < current_time \<Longrightarrow> current_time \<le> cancel_time \<Longrightarrow> c \<le> cancel_time
       \<Longrightarrow> manipulate sf current_time cancel_time action parameters self = Inr self'
       \<Longrightarrow> reachable cancel_time self'"
| tick:
    "reachable c self \<Longrightarrow> c \<le> heartbeat_time f \<Longrightarrow> heartbeat_time f \<le> effects_time f
       \<Longrightarrow> random_ok f
       \<Longrightarrow> reachable (effects_time f) (update f self)"

text \<open>A float parser that rejects every string, for closed examples that parse none.\<close>

definition no_parse :: "string \<Rightarrow> pyfloat option" where
  "no_parse s = None"

subsection \<open>Parameters of a request\<close>

text \<open>
  The numeric values that \<^verbatim>\<open>float\<close> converts: every float, and every int whose magnitude
  is below the overflow limit.
\<close>

definition convertible_number :: "pyval \<Rightarrow> bool" where
  "convertible_number v =
     (case v of PFloat f \<Rightarrow> True | PInt n \<Rightarrow> \<bar>n\<bar> < int_float_limit | _ \<Rightarrow> False)"

definition is_string :: "pyval \<Rightarrow> bool" where
  "is_string v = (case v of PStr s \<Rightarrow> True | _ \<Rightarrow> False)"

text \<open>
  A parameter map (or \<^verbatim>\<open>None\<close>) in which the key is missing or has a value of the
  given kind.
\<close>

definition missing_or :: "(pyval \<Rightarrow> bool) \<Rightarrow> string \<Rightarrow> pyval \<Rightarrow> bool" where
  "missing_or kind key parameters =
     (case parameters of
        PNone \<Rightarrow> True
      | PDict kvs \<Rightarrow> (case map_of kvs key of None \<Rightarrow> True | Some v \<Rightarrow> kind v)
      | _ \<Rightarrow> False)"

definition starts_with_hash :: "string \<Rightarrow> bool" where
  "starts_with_hash s = (case s of [] \<Rightarrow> False | c # cs \<Rightarrow> c = CHR ''#'')"

subsection \<open>The nearest corner, as the specification words it\<close>

section \<open>Verification\<close>

subsection \<open>What each step leaves alone\<close>

text \<open>
  Each block of \<^verbatim>\<open>update\<close> writes a few fields only. The lemmas of this subsection
  record, for the fields that the properties below talk about, which block keeps them.
\<close>

lemma decay_wall_impact_keeps [simp]:
  "x (decay_wall_impact st) = x st"
  "y (decay_wall_impact st) = y st"
  "vx (decay_wall_impact st) = vx st"
  "vy (decay_wall_impact st) = vy st"
  "rotation_angle (decay_wall_impact st) = rotation_angle st"
  "rotation_speed (decay_wall_impact st) = rotation_speed st"
  "effect_active (decay_wall_impact st) = effect_active st"
  "effect_start_time (decay_wall_impact st) = effect_start_time st"
  "spin_out_phase (decay_wall_impact st) = spin_out_phase st"
  "spin_out_ramp_start (decay_wall_impact st) = spin_out_ramp_start st"
  "corner_trapped (decay_wall_impact st) = corner_trapped st"
  "trap_corner_x (decay_wall_impact st) = trap_corner_x st"
  "trap_corner_y (decay_wall_impact st) = trap_corner_y st"
  "saved_vx (decay_wall_impact st) = saved_vx st"
  "saved_vy (decay_wall_impact st) = saved_vy st"
  "drill_end_time (decay_wall_impact st) = drill_end_time st"
  "drill_saved_vx (decay_wall_impact st) = drill_saved_vx st"
  "drill_saved_vy (decay_wall_impact st) = drill_saved_vy st"
  "current_scale (decay_wall_impact st) = current_scale st"
  "eyes_enabled (decay_wall_impact st) = eyes_enabled st"
  "target_scale (decay_wall_impact st) = target_scale st"
  "shrink_end_time (decay_wall_impact st) = shrink_end_time st"
  "opacity (decay_wall_impact st) = opacity st"
  "color (decay_wall_impact st) = color st"
  by (simp_all add: decay_wall_impact_def Let_def)

lemma expire_shrink_keeps [simp]:
  "x (expire_shrink t st) = x st"
  "y (expire_shrink t st) = y st"
  "vx (expire_shrink t st) = vx st"
  "vy (expire_shrink t st) = vy st"
  "wall_impact (expire_shrink t st) = wall_impact st"
  "rotation_angle (expire_shrink t st) = rotation_angle st"
  "rotation_speed (expire_shrink t st) = rotation_speed st"
  "effect_start_time (expire_shrink t st) = effect_start_time st"
  "spin_out_phase (expire_shrink t st) = spin_out_phase st"
  "spin_out_ramp_start (expire_shrink t st) = spin_out_ramp_start st"
  "corner_trapped (expire_shrink t st) = corner_trapped st"
  "trap_corner_x (expire_shrink t st) = trap_corner_x st"
  "trap_corner_y (expire_shrink t st) = trap_corner_y st"
  "saved_vx (expire_shrink t st) = saved_vx st"
  "saved_vy (expire_shrink t st) = saved_vy st"
  "drill_end_time (expire_shrink t st) = drill_end_time st"
  "drill_saved_vx (expire_shrink t st) = drill_saved_vx st"
  "drill_saved_vy (expire_shrink t st) = drill_saved_vy st"
  "current_scale (expire_shrink t st) = current_scale st"
  "eyes_enabled (expire_shrink t st) = eyes_enabled st"
  "opacity (expire_shrink t st) = opacity st"
  "color (expire_shrink t st) = color st"
  by (simp_all add: expire_shrink_def Let_def)

lemma expire_color_keeps [simp]:
  "x (expire_color t st) = x st"
  "y (expire_color t st) = y st"
  "vx (expire_color t st) = vx st"
  "vy (expire_color t st) = vy st"
  "wall_impact (expire_color t st) = wall_impact st"
  "rotation_angle (expire_color t st) = rotation_angle st"
  "rotation_speed (expire_color t st) = rotation_speed st"
  "effect_active (expire_color t st) = effect_active st"
  "effect_start_time (expire_color t st) = effect_start_time st"
  "spin_out_phase (expire_color t st) = spin_out_phase st"
  "spin_out_ramp_start (expire_color t st) = spin_out_ramp_start st"
  "corner_trapped (expire_color t st) = corner_trapped st"
  "trap_corner_x (expire_color t st) = trap_corner_x st"
  "trap_corner_y (expire_color t st) = trap_corner_y st"
  "saved_vx (expire_color t st) = saved_vx st"
  "saved_vy (expire_color t st) = saved_vy st"
  "drill_end_time (expire_color t st) = drill_end_time st"
  "drill_saved_vx (expire_color t st) = drill_saved_vx st"
  "drill_saved_vy (expire_color t st) = drill_saved_vy st"
  "current_scale (expire_color t st) = current_scale st"
  "eyes_enabled (expire_color t st) = eyes_enabled st"
  "target_scale (expire_color t st) = target_scale st"
  "shrink_end_time (expire_color t st) = shrink_end_time st"
  "opacity (expire_color t st) = opacity st"
  by (simp_all add: expire_color_def Let_def)

lemma expire_opacity_keeps [simp]:
  "x (expire_opacity t st) = x st"
  "y (expire_opacity t st) = y st"
  "vx (expire_opacity t st) = vx st"
  "vy (expire_opacity t st) = vy st"
  "wall_impact (expire_opacity t st) = wall_impact st"
  "rotation_angle (expire_opacity t st) = rotation_angle st"
  "rotation_speed (expire_opacity t st) = rotation_speed st"
  "effect_active (expire_opacity t st) = effect_active st"
  "effect_start_time (expire_opacity t st) = effect_start_time st"
  "spin_out_phase (expire_opacity t st) = spin_out_phase st"
  "spin_out_ramp_start (expire_opacity t st) = spin_out_ramp_start st"
  "corner_trapped (expire_opacity t st) = corner_trapped st"
  "trap_corner_x (expire_opacity t st) = trap_corner_x st"
  "trap_corner_y (expire_opacity t st) = trap_corner_y st"
  "saved_vx (expire_opacity t st) = saved_vx st"
  "saved_vy (expire_opacity t st) = saved_vy st"
  "drill_end_time (expire_opacity t st) = drill_end_time st"
  "drill_saved_vx (expire_opacity t st) = drill_saved_vx st"
  "drill_saved_vy (expire_opacity t st) = drill_saved_vy st"
  "current_scale (expire_opacity t st) = current_scale st"
  "eyes_enabled (expire_opacity t st) = eyes_enabled st"
  "target_scale (expire_opacity t st) = target_scale st"
  "shrink_end_time (expire_opacity t st) = shrink_end_time st"
  "color (expire_opacity t st) = color st"
  by (simp_all add: expire_opacity_def Let_def)

lemma expire_drill_keeps [simp]:
  "x (expire_drill t st) = x st"
  "y (expire_drill t st) = y st"
  "wall_impact (expire_drill t st) = wall_impact st"
  "rotation_angle (expire_drill t st) = rotation_angle st"
  "effect_start_time (expire_drill t st) = effect_start_time st"
  "spin_out_phase (expire_drill t st) = spin_out_phase st"
  "spin_out_ramp_start (expire_drill t st) = spin_out_ramp_start st"
  "corner_trapped (expire_drill t st) = corner_trapped st"
  "trap_corner_x (expire_drill t st) = trap_corner_x st"
  "trap_corner_y (expire_drill t st) = trap_corner_y st"
  "saved_vx (expire_drill t st) = saved_vx st"
  "saved_vy (expire_drill t st) = saved_vy st"
  "drill_saved_vx (expire_drill t st) = drill_saved_vx st"
  "drill_saved_vy (expire_drill t st) = drill_saved_vy st"
  "current_scale (expire_drill t st) = current_scale st"
  "eyes_enabled (expire_drill t st) = eyes_enabled st"
  "target_scale (expire_drill t st) = target_scale st"
  "shrink_end_time (expire_drill t st) = shrink_end_time st"
  "opacity (expire_drill t st) = opacity st"
  "color (expire_drill t st) = color st"
  by (simp_all add: expire_drill_def Let_def)

lemma expire_corner_trap_keeps [simp]:
  "x (expire_corner_trap t st) = x st"
  "y (expire_corner_trap t st) = y st"
  "wall_impact (expire_corner_trap t st) = wall_impact st"
  "rotation_angle (expire_corner_trap t st) = rotation_angle st"
  "rotation_speed (expire_corner_trap t st) = rotation_speed st"
  "effect_start_time (expire_corner_trap t st) = effect_start_time st"
  "spin_out_phase (expire_corner_trap t st) = spin_out_phase st"
  "spin_out_ramp_start (expire_corner_trap t st) = spin_out_ramp_start st"
  "trap_corner_x (expire_corner_trap t st) = trap_corner_x st"
  "trap_corner_y (expire_corner_trap t st) = trap_corner_y st"
  "saved_vx (expire_corner_trap t st) = saved_vx st"
  "saved_vy (expire_corner_trap t st) = saved_vy st"
  "drill_end_time (expire_corner_trap t st) = drill_end_time st"
  "drill_saved_vx (expire_corner_trap t st) = drill_saved_vx st"
  "drill_saved_vy (expire_corner_trap t st) = drill_saved_vy st"
  "current_scale (expire_corner_trap t st) = current_scale st"
  "eyes_enabled (expire_corner_trap t st) = eyes_enabled st"
  "target_scale (expire_corner_trap t st) = target_scale st"
  "shrink_end_time (expire_corner_trap t st) = shrink_end_time st"
  "opacity (expire_corner_trap t st) = opacity st"
  "color (expire_corner_trap t st) = color st"
  by (simp_all add: expire_corner_trap_def Let_def)

lemma update_spin_out_keeps [simp]:
  "x (update_spin_out t st) = x st"
  "y (update_spin_out t st) = y st"
  "vx (update_spin_out t st) = vx st"
  "vy (update_spin_out t st) = vy st"
  "wall_impact (update_spin_out t st) = wall_impact st"
  "rotation_angle (update_spin_out t st) = rotation_angle st"
  "effect_start_time (update_spin_out t st) = effect_start_time st"
  "spin_out_ramp_start (update_spin_out t st) = spin_out_ramp_start st"
  "corner_trapped (update_spin_out t st) = corner_trapped st"
  "trap_corner_x (update_spin_out t st) = trap_corner_x st"
  "trap_corner_y (update_spin_out t st) = trap_corner_y st"
  "saved_vx (update_spin_out t st) = saved_vx st"
  "saved_vy (update_spin_out t st) = saved_vy st"
  "drill_end_time (update_spin_out t st) = drill_end_time st"
  "drill_saved_vx (update_spin_out t st) = drill_saved_vx st"
  "drill_saved_vy (update_spin_out t st) = drill_saved_vy st"
  "current_scale (update_spin_out t st) = current_scale st"
  "eyes_enabled (update_spin_out t st) = eyes_enabled st"
  "target_scale (update_spin_out t st) = target_scale st"
  "shrink_end_time (update_spin_out t st) = shrink_end_time st"
  "opacity (update_spin_out t st) = opacity st"
  "color (update_spin_out t st) = color st"
  by (simp_all add: update_spin_out_def Let_def)

lemma update_heartbeat_keeps [simp]:
  "x (update_heartbeat t st) = x st"
  "y (update_heartbeat t st) = y st"
  "vx (update_heartbeat t st) = vx st"
  "vy (update_heartbeat t st) = vy st"
  "wall_impact (update_heartbeat t st) = wall_impact st"
  "rotation_angle (update_heartbeat t st) = rotation_angle st"
  "rotation_speed (update_heartbeat t st) = rotation_speed st"
  "effect_active (update_heartbeat t st) = effect_active st"
  "effect_start_time (update_heartbeat t st) = effect_start_time st"
  "spin_out_phase (update_heartbeat t st) = spin_out_phase st"
  "spin_out_ramp_start (update_heartbeat t st) = spin_out_ramp_start st"
  "corner_trapped (update_heartbeat t st) = corner_trapped st"
  "trap_corner_x (update_heartbeat t st) = trap_corner_x st"
  "trap_corner_y (update_heartbeat t st) = trap_corner_y st"
  "saved_vx (update_heartbeat t st) = saved_vx st"
  "saved_vy (update_heartbeat t st) = saved_vy st"
  "drill_end_time (update_heartbeat t st) = drill_end_time st"
  "drill_saved_vx (update_heartbeat t st) = drill_saved_vx st"
  "drill_saved_vy (update_heartbeat t st) = drill_saved_vy st"
  "current_scale (update_heartbeat t st) = current_scale st"
  "eyes_enabled (update_heartbeat t st) = eyes_enabled st"
  "target_scale (update_heartbeat t st) = target_scale st"
  "shrink_end_time (update_heartbeat t st) = shrink_end_time st"
  "opacity (update_heartbeat t st) = opacity st"
  "color (update_heartbeat t st) = color st"
  by (simp_all add: update_heartbeat_def Let_def)

lemma update_scale_rotation_keeps [simp]:
  "x (update_scale_rotation st) = x st"
  "y (update_scale_rotation st) = y st"
  "vx (update_scale_rotation st) = vx st"
  "vy (update_scale_rotation st) = vy st"
  "wall_impact (update_scale_rotation st) = wall_impact st"
  "rotation_speed (update_scale_rotation st) = rotation_speed st"
  "effect_active (update_scale_rotation st) = effect_active st"
  "effect_start_time (update_scale_rotation st) = effect_start_time st"
  "spin_out_phase (update_scale_rotation st) = spin_out_phase st"
  "spin_out_ramp_start (update_scale_rotation st) = spin_out_ramp_start st"
  "corner_trapped (update_scale_rotation st) = corner_trapped st"
  "trap_corner_x (update_scale_rotation st) = trap_corner_x st"
  "trap_corner_y (update_scale_rotation st) = trap_corner_y st"
  "saved_vx (update_scale_rotation st) = saved_vx st"
  "saved_vy (update_scale_rotation st) = saved_vy st"
  "drill_end_time (update_scale_rotation st) = drill_end_time st"
  "drill_saved_vx (update_scale_rotation st) = drill_saved_vx st"
  "drill_saved_vy (update_scale_rotation st) = drill_saved_vy st"
  "eyes_enabled (update_scale_rotation st) = eyes_enabled st"
  "shrink_end_time (update_scale_rotation st) = shrink_end_time st"
  "opacity (update_scale_rotation st) = opacity st"
  "color (update_scale_rotation st) = color st"
  by (simp_all add: update_scale_rotation_def Let_def)

lemma update_eye_physics_keeps [simp]:
  "x (update_eye_physics st) = x st"
  "y (update_eye_physics st) = y st"
  "vx (update_eye_physics st) = vx st"
  "vy (update_eye_physics st) = vy st"
  "wall_impact (update_eye_physics st) = wall_impact st"
  "rotation_angle (update_eye_physics st) = rotation_angle st"
  "rotation_speed (update_eye_physics st) = rotation_speed st"
  "effect_active (update_eye_physics st) = effect_active st"
  "effect_start_time (update_eye_physics st) = effect_start_time st"
  "spin_out_phase (update_eye_physics st) = spin_out_phase st"
  "spin_out_ramp_start (update_eye_physics st) = spin_out_ramp_start st"
  "corner_trapped (update_eye_physics st) = corner_trapped st"
  "trap_corner_x (update_eye_physics st) = trap_corner_x st"
  "trap_corner_y (update_eye_physics st) = trap_corner_y st"
  "saved_vx (update_eye_physics st) = saved_vx st"
  "saved_vy (update_eye_physics st) = saved_vy st"
  "drill_end_time (update_eye_physics st) = drill_end_time st"
  "drill_saved_vx (update_eye_physics st) = drill_saved_vx st"
  "drill_saved_vy (update_eye_physics st) = drill_saved_vy st"
  "current_scale (update_eye_physics st) = current_scale st"
  "eyes_enabled (update_eye_physics st) = eyes_enabled st"
  "target_scale (update_eye_physics st) = target_scale st"
  "shrink_end_time (update_eye_physics st) = shrink_end_time st"
  "opacity (update_eye_physics st) = opacity st"
  "color (update_eye_physics st) = color st"
  by (simp_all add: update_eye_physics_def Let_def)

subsection \<open>What each step writes\<close>

lemma decay_wall_impact_writes [simp]:
  "wall_impact (decay_wall_impact st) = wall_impact st * 0.85"
  by (simp add: decay_wall_impact_def)

lemma expire_shrink_writes [simp]:
  "shrink_end_time (expire_shrink t st) =
     (if shrink_end_time st > 0 \<and> t \<ge> shrink_end_time st then 0 else shrink_end_time st)"
  "target_scale (expire_shrink t st) =
     (if shrink_end_time st > 0 \<and> t \<ge> shrink_end_time st then 1 else target_scale st)"
  "effect_active (expire_shrink t st) =
     (if shrink_end_time st > 0 \<and> t \<ge> shrink_end_time st \<and> effect_active st = Some ''shrink''
      then None else effect_active st)"
  by (simp_all add: expire_shrink_def)

lemma expire_drill_writes [simp]:
  "drill_end_time (expire_drill t st) =
     (if drill_end_time st > 0 \<and> t \<ge> drill_end_time st then 0 else drill_end_time st)"
  "vx (expire_drill t st) =
     (if drill_end_time st > 0 \<and> t \<ge> drill_end_time st then drill_saved_vx st else vx st)"
  "vy (expire_drill t st) =
     (if drill_end_time st > 0 \<and> t \<ge> drill_end_time st then drill_saved_vy st else vy st)"
  "rotation_speed (expire_drill t st) =
     (if drill_end_time st > 0 \<and> t \<ge> drill_end_time st then default_rotation_speed
      else rotation_speed st)"
  "effect_active (expire_drill t st) =
     (if drill_end_time st > 0 \<and> t \<ge> drill_end_time st \<and> effect_active st = Some ''drill''
      then None else effect_active st)"
  by (simp_all add: expire_drill_def)

lemma expire_corner_trap_writes [simp]:
  "corner_trapped (expire_corner_trap t st) =
     (corner_trapped st \<and> \<not> t - effect_start_time st \<ge> 10)"
  "vx (expire_corner_trap t st) =
     (if corner_trapped st \<and> t - effect_start_time st \<ge> 10 then saved_vx st else vx st)"
  "vy (expire_corner_trap t st) =
     (if corner_trapped st \<and> t - effect_start_time st \<ge> 10 then saved_vy st else vy st)"
  "effect_active (expire_corner_trap t st) =
     (if corner_trapped st \<and> t - effect_start_time st \<ge> 10
         \<and> effect_active st = Some ''corner_trap''
      then None else effect_active st)"
  by (auto simp add: expire_corner_trap_def)

lemma update_spin_out_writes [simp]:
  "spin_out_phase (update_spin_out t st) =
     (if spin_out_phase st = Some ''ramp''
      then (if t - spin_out_ramp_start st < 2 then Some ''ramp'' else Some ''decay'')
      else if spin_out_phase st = Some ''decay''
      then (if rotation_speed st * 0.992 < 0.1 then None else Some ''decay'')
      else spin_out_phase st)"
  "rotation_speed (update_spin_out t st) =
     (if spin_out_phase st = Some ''ramp''
      then (if t - spin_out_ramp_start st < 2 then 1 + (t - spin_out_ramp_start st) * 5
            else rotation_speed st)
      else if spin_out_phase st = Some ''decay''
      then (if rotation_speed st * 0.992 < 0.1 then default_rotation_speed
            else rotation_speed st * 0.992)
      else rotation_speed st)"
  "effect_active (update_spin_out t st) =
     (if spin_out_phase st = Some ''decay'' \<and> rotation_speed st * 0.992 < 0.1
         \<and> effect_active st = Some ''spin_out''
      then None else effect_active st)"
  by (simp_all add: update_spin_out_def Let_def)

lemma update_scale_rotation_writes [simp]:
  "rotation_angle (update_scale_rotation st) = rotation_angle st + rotation_speed st"
  "current_scale (update_scale_rotation st) =
     current_scale st
       + ((if shrink_end_time st = 0 then 1 + heartbeat_pulse st * 0.08 else target_scale st)
          - current_scale st) * 0.15"
  by (simp_all add: update_scale_rotation_def Let_def)

text \<open>The position step writes the position, the velocity and the wall impact only.\<close>

lemma update_position_keeps [simp]:
  "rotation_angle (state (update_position rx ry self)) = rotation_angle (state self)"
  "rotation_speed (state (update_position rx ry self)) = rotation_speed (state self)"
  "effect_active (state (update_position rx ry self)) = effect_active (state self)"
  "effect_start_time (state (update_position rx ry self)) = effect_start_time (state self)"
  "spin_out_phase (state (update_position rx ry self)) = spin_out_phase (state self)"
  "spin_out_ramp_start (state (update_position rx ry self)) = spin_out_ramp_start (state self)"
  "corner_trapped (state (update_position rx ry self)) = corner_trapped (state self)"
  "trap_corner_x (state (update_position rx ry self)) = trap_corner_x (state self)"
  "trap_corner_y (state (update_position rx ry self)) = trap_corner_y (state self)"
  "saved_vx (state (update_position rx ry self)) = saved_vx (state self)"
  "saved_vy (state (update_position rx ry self)) = saved_vy (state self)"
  "drill_end_time (state (update_position rx ry self)) = drill_end_time (state self)"
  "drill_saved_vx (state (update_position rx ry self)) = drill_saved_vx (state self)"
  "drill_saved_vy (state (update_position rx ry self)) = drill_saved_vy (state self)"
  "current_scale (state (update_position rx ry self)) = current_scale (state self)"
  "eyes_enabled (state (update_position rx ry self)) = eyes_enabled (state self)"
  "target_scale (state (update_position rx ry self)) = target_scale (state self)"
  "shrink_end_time (state (update_position rx ry self)) = shrink_end_time (state self)"
  "opacity (state (update_position rx ry self)) = opacity (state self)"
  "color (state (update_position rx ry self)) = color (state self)"
  by (simp_all add: update_position_def update_bouncing_position_def Let_def)

lemma update_position_display [simp]:
  "display_width (update_position rx ry self) = display_width self"
  "display_height (update_position rx ry self) = display_height self"
  by (simp_all add: update_position_def update_bouncing_position_def Let_def)

lemma update_display [simp]:
  "display_width (update f self) = display_width self"
  "display_height (update f self) = display_height self"
  by (simp_all add: update_def Let_def)

lemma update_keeps:
  "rotation_angle (state (update f self)) = rotation_angle (state (before_position f self))"
  "rotation_speed (state (update f self)) = rotation_speed (state (before_position f self))"
  "effect_active (state (update f self)) = effect_active (state (before_position f self))"
  "effect_start_time (state (update f self)) = effect_start_time (state (before_position f self))"
  "spin_out_phase (state (update f self)) = spin_out_phase (state (before_position f self))"
  "spin_out_ramp_start (state (update f self)) = spin_out_ramp_start (state (before_position f self))"
  "corner_trapped (state (update f self)) = corner_trapped (state (before_position f self))"
  "trap_corner_x (state (update f self)) = trap_corner_x (state (before_position f self))"
  "trap_corner_y (state (update f self)) = trap_corner_y (state (before_position f self))"
  "saved_vx (state (update f self)) = saved_vx (state (before_position f self))"
  "saved_vy (state (update f self)) = saved_vy (state (before_position f self))"
  "drill_end_time (state (update f self)) = drill_end_time (state (before_position f self))"
  "drill_saved_vx (state (update f self)) = drill_saved_vx (state (before_position f self))"
  "drill_saved_vy (state (update f self)) = drill_saved_vy (state (before_position f self))"
  "current_scale (state (update f self)) = current_scale (state (before_position f self))"
  "eyes_enabled (state (update f self)) = eyes_enabled (state (before_position f self))"
  "target_scale (state (update f self)) = target_scale (state (before_position f self))"
  "shrink_end_time (state (update f self)) = shrink_end_time (state (before_position f self))"
  "opacity (state (update f self)) = opacity (state (before_position f self))"
  "color (state (update f self)) = color (state (before_position f self))"
  by (simp_all add: update_def before_position_def Let_def)
text \<open>The heartbeat writes the pulse only, which no effect reads.\<close>

lemma effect_steps_pulse:
  "decay_wall_impact (st\<lparr>heartbeat_pulse := p\<rparr>) = (decay_wall_impact st)\<lparr>heartbeat_pulse := p\<rparr>"
  "expire_shrink t (st\<lparr>heartbeat_pulse := p\<rparr>) = (expire_shrink t st)\<lparr>heartbeat_pulse := p\<rparr>"
  "expire_color t (st\<lparr>heartbeat_pulse := p\<rparr>) = (expire_color t st)\<lparr>heartbeat_pulse := p\<rparr>"
  "expire_opacity t (st\<lparr>heartbeat_pulse := p\<rparr>) = (expire_opacity t st)\<lparr>heartbeat_pulse := p\<rparr>"
  "expire_drill t (st\<lparr>heartbeat_pulse := p\<rparr>) = (expire_drill t st)\<lparr>heartbeat_pulse := p\<rparr>"
  "expire_corner_trap t (st\<lparr>heartbeat_pulse := p\<rparr>) = (expire_corner_trap t st)\<lparr>heartbeat_pulse := p\<rparr>"
  "update_spin_out t (st\<lparr>heartbeat_pulse := p\<rparr>) = (update_spin_out t st)\<lparr>heartbeat_pulse := p\<rparr>"
  by (simp_all add: decay_wall_impact_def expire_shrink_def expire_color_def expire_opacity_def
      expire_drill_def expire_corner_trap_def update_spin_out_def Let_def)

lemma update_effects_pulse:
  "update_effects t (st\<lparr>heartbeat_pulse := p\<rparr>) = (update_effects t st)\<lparr>heartbeat_pulse := p\<rparr>"
  by (simp add: update_effects_def effect_steps_pulse)

lemma update_heartbeat_pulse:
  "update_heartbeat h st = st\<lparr>heartbeat_pulse := heartbeat_pulse (update_heartbeat h st)\<rparr>"
  by (simp add: update_heartbeat_def Let_def)

lemma update_effects_heartbeat:
  "update_effects t (update_heartbeat h st) =
     (update_effects t st)\<lparr>heartbeat_pulse := heartbeat_pulse (update_heartbeat h st)\<rparr>"
proof -
  have "update_effects t (update_heartbeat h st) =
          update_effects t (st\<lparr>heartbeat_pulse := heartbeat_pulse (update_heartbeat h st)\<rparr>)"
    by (rule arg_cong [OF update_heartbeat_pulse])
  then show ?thesis by (simp only: update_effects_pulse)
qed

text \<open>For the fields that only the effects write, a frame is its effects step.\<close>

lemma update_field:
  "rotation_speed (state (update f self)) = rotation_speed (update_effects (effects_time f) (state self))"
  "effect_active (state (update f self)) = effect_active (update_effects (effects_time f) (state self))"
  "effect_start_time (state (update f self)) = effect_start_time (update_effects (effects_time f) (state self))"
  "spin_out_phase (state (update f self)) = spin_out_phase (update_effects (effects_time f) (state self))"
  "spin_out_ramp_start (state (update f self)) = spin_out_ramp_start (update_effects (effects_time f) (state self))"
  "corner_trapped (state (update f self)) = corner_trapped (update_effects (effects_time f) (state self))"
  "trap_corner_x (state (update f self)) = trap_corner_x (update_effects (effects_time f) (state self))"
  "trap_corner_y (state (update f self)) = trap_corner_y (update_effects (effects_time f) (state self))"
  "saved_vx (state (update f self)) = saved_vx (update_effects (effects_time f) (state self))"
  "saved_vy (state (update f self)) = saved_vy (update_effects (effects_time f) (state self))"
  "drill_end_time (state (update f self)) = drill_end_time (update_effects (effects_time f) (state self))"
  "drill_saved_vx (state (update f self)) = drill_saved_vx (update_effects (effects_time f) (state self))"
  "drill_saved_vy (state (update f self)) = drill_saved_vy (update_effects (effects_time f) (state self))"
  "eyes_enabled (state (update f self)) = eyes_enabled (update_effects (effects_time f) (state self))"
  "opacity (state (update f self)) = opacity (update_effects (effects_time f) (state self))"
  "color (state (update f self)) = color (update_effects (effects_time f) (state self))"
  "shrink_end_time (state (update f self)) = shrink_end_time (update_effects (effects_time f) (state self))"
  by (simp_all add: update_def before_position_def update_effects_heartbeat Let_def)

lemma update_effects_simple [simp]:
  "x (update_effects t st) = x st"
  "y (update_effects t st) = y st"
  "wall_impact (update_effects t st) = wall_impact st * 0.85"
  "effect_start_time (update_effects t st) = effect_start_time st"
  "spin_out_ramp_start (update_effects t st) = spin_out_ramp_start st"
  "trap_corner_x (update_effects t st) = trap_corner_x st"
  "trap_corner_y (update_effects t st) = trap_corner_y st"
  "saved_vx (update_effects t st) = saved_vx st"
  "saved_vy (update_effects t st) = saved_vy st"
  "drill_saved_vx (update_effects t st) = drill_saved_vx st"
  "drill_saved_vy (update_effects t st) = drill_saved_vy st"
  "current_scale (update_effects t st) = current_scale st"
  "eyes_enabled (update_effects t st) = eyes_enabled st"
  "shrink_end_time (update_effects t st) =
     (if shrink_end_time st > 0 \<and> t \<ge> shrink_end_time st then 0 else shrink_end_time st)"
  "target_scale (update_effects t st) =
     (if shrink_end_time st > 0 \<and> t \<ge> shrink_end_time st then 1 else target_scale st)"
  "drill_end_time (update_effects t st) =
     (if drill_end_time st > 0 \<and> t \<ge> drill_end_time st then 0 else drill_end_time st)"
  "corner_trapped (update_effects t st) =
     (corner_trapped st \<and> \<not> t - effect_start_time st \<ge> 10)"
  "vx (update_effects t st) =
     (if corner_trapped st \<and> t - effect_start_time st \<ge> 10 then saved_vx st
      else if drill_end_time st > 0 \<and> t \<ge> drill_end_time st then drill_saved_vx st
      else vx st)"
  "vy (update_effects t st) =
     (if corner_trapped st \<and> t - effect_start_time st \<ge> 10 then saved_vy st
      else if drill_end_time st > 0 \<and> t \<ge> drill_end_time st then drill_saved_vy st
      else vy st)"
  by (simp_all add: update_effects_def)

text \<open>The state at startup, field by field.\<close>

lemma initialize_fields:
  "x (state (initialize fs w h)) = real_of_int w / 2"
  "y (state (initialize fs w h)) = real_of_int h / 2"
  "vx (state (initialize fs w h)) = 0.5"
  "vy (state (initialize fs w h)) = 0.5"
  "current_scale (state (initialize fs w h)) = 1"
  "target_scale (state (initialize fs w h)) = 1"
  "rotation_angle (state (initialize fs w h)) = 0"
  "rotation_speed (state (initialize fs w h)) = 0.5"
  "color (state (initialize fs w h)) = DEFAULT_COLOR"
  "opacity (state (initialize fs w h)) = 1"
  "heartbeat_pulse (state (initialize fs w h)) = 0"
  "wall_impact (state (initialize fs w h)) = 0"
  "eyes_enabled (state (initialize fs w h)) = False"
  "left_eye (state (initialize fs w h)) = EyeState_default"
  "right_eye (state (initialize fs w h)) = EyeState_default"
  "effect_active (state (initialize fs w h)) = None"
  "effect_start_time (state (initialize fs w h)) = 0"
  "spin_out_phase (state (initialize fs w h)) = None"
  "spin_out_ramp_start (state (initialize fs w h)) = 0"
  "corner_trapped (state (initialize fs w h)) = False"
  "trap_corner_x (state (initialize fs w h)) = 0"
  "trap_corner_y (state (initialize fs w h)) = 0"
  "saved_vx (state (initialize fs w h)) = 0"
  "saved_vy (state (initialize fs w h)) = 0"
  "shrink_end_time (state (initialize fs w h)) = 0"
  "color_end_time (state (initialize fs w h)) = 0"
  "opacity_end_time (state (initialize fs w h)) = 0"
  "drill_end_time (state (initialize fs w h)) = 0"
  "drill_saved_vx (state (initialize fs w h)) = 0"
  "drill_saved_vy (state (initialize fs w h)) = 0"
  "display_width (initialize fs w h) = w"
  "display_height (initialize fs w h) = h"
  by (simp_all add: initialize_def StarState_default_def)
subsection \<open>Reset\<close>

lemma manipulate_reset:
  "manipulate sf t tc ''reset'' p self = Inr (self\<lparr>state := reset_state (state self)\<rparr>)"
  by (simp add: manipulate_def)

lemma update_frame_rotation:
  "rotation_angle (state (update f self)) =
     rotation_angle (state self) + rotation_speed (update_effects (effects_time f) (state self))"
  by (simp add: update_keeps before_position_def update_effects_def)

text \<open>
  Claim C2, as stated, fails: \<^verbatim>\<open>_reset_state\<close> assigns neither the position nor the rotation
  angle, the heartbeat pulse or the wall impact, all of which \<^verbatim>\<open>get_status\<close> reports.
  After one frame from startup (on a 1280 by 720 display) and a reset, the status still shows
  the rotation of 0.5 degrees and the moved position, so it is not the status at startup.
\<close>

theorem reset_status_counterexample:
  "get_status
     (projr (manipulate no_parse 2 2 ''reset'' PNone
        (update \<lparr>heartbeat_time = 1, effects_time = 1, random_x = 0.5, random_y = 0.5\<rparr>
           (initialize False 1280 720))))
   \<noteq> get_status (initialize False 1280 720)"
proof -
  let ?f = "\<lparr>heartbeat_time = 1, effects_time = 1, random_x = 0.5, random_y = 0.5\<rparr>"
  let ?s = "update ?f (initialize False 1280 720)"
  have "rotation_angle (state ?s) = 0.5"
    by (simp add: update_frame_rotation update_effects_def initialize_def StarState_default_def
        default_rotation_speed_def)
  moreover have "rotation_angle (state (initialize False 1280 720)) = 0"
    by (simp add: initialize_def StarState_default_def)
  ultimately show ?thesis
    by (simp add: manipulate_reset get_status_def Let_def reset_state_def)
qed

text \<open>
  Claim C2, amended: \<^verbatim>\<open>manipulate('reset')\<close> never fails and is idempotent; from every prior
  state it sets scale (current and target) to 1, rotation speed to 0.5, color to the default,
  opacity to 1, clears the effect label, the corner-trap flag, the spin-out phase and the
  four end times, sets the velocity to (0.5, 0.5), disables the eyes and resets both eyes to
  angle pi/2 with zero velocity. It leaves the position, the rotation angle, the heartbeat
  pulse and the wall impact as they were, so the status after a reset agrees with the default
  status in the fields listed and reports the unchanged values in the others.
\<close>

theorem reset_restores_listed_fields:
  "manipulate sf t tc ''reset'' p self = Inr (self\<lparr>state := reset_state (state self)\<rparr>)
   \<and> reset_state (reset_state st) = reset_state st
   \<and> current_scale (reset_state st) = 1 \<and> target_scale (reset_state st) = 1
   \<and> rotation_speed (reset_state st) = 0.5
   \<and> color (reset_state st) = DEFAULT_COLOR \<and> opacity (reset_state st) = 1
   \<and> effect_active (reset_state st) = None \<and> \<not> corner_trapped (reset_state st)
   \<and> spin_out_phase (reset_state st) = None
   \<and> shrink_end_time (reset_state st) = 0 \<and> color_end_time (reset_state st) = 0
   \<and> opacity_end_time (reset_state st) = 0 \<and> drill_end_time (reset_state st) = 0
   \<and> vx (reset_state st) = 0.5 \<and> vy (reset_state st) = 0.5
   \<and> \<not> eyes_enabled (reset_state st)
   \<and> left_eye (reset_state st) = \<lparr>angle = pi / 2, velocity = 0\<rparr>
   \<and> right_eye (reset_state st) = \<lparr>angle = pi / 2, velocity = 0\<rparr>
   \<and> x (reset_state st) = x st \<and> y (reset_state st) = y st
   \<and> rotation_angle (reset_state st) = rotation_angle st
   \<and> heartbeat_pulse (reset_state st) = heartbeat_pulse st
   \<and> wall_impact (reset_state st) = wall_impact st
   \<and> get_status (self\<lparr>state := reset_state (state self)\<rparr>) =
       ((x (state self), y (state self)), (0.5, 0.5), 1, rotation_angle (state self), 0.5,
        DEFAULT_COLOR, 1, None, False, False,
        heartbeat_pulse (state self), wall_impact (state self),
        (display_width self, display_height self))"
  by (simp add: manipulate_reset reset_state_def default_rotation_speed_def EyeState_default_def
      get_status_def Let_def)

subsection \<open>Unknown actions\<close>

text \<open>
  Claim C6: for an action string outside the eight valid ones and any parameters, the
  entry point \<^verbatim>\<open>manipulate_star\<close> answers with an error status (400, or 503 when no
  screensaver runs) and the simulation is left as it was. (The method \<^verbatim>\<open>manipulate\<close> is
  never called then; called directly with such an action it falls through every branch and
  changes nothing either.)
\<close>

theorem unknown_action_rejected:
  assumes "a \<notin> set valid_actions"
  shows "fst (manipulate_star sf t tc (PStr a) p sv) = (if sv = None then 503 else 400)
         \<and> snd (manipulate_star sf t tc (PStr a) p sv) = sv
         \<and> manipulate sf t tc a p self = Inr self"
proof -
  have "manipulate sf t tc a p self = Inr self"
    using assms by (simp add: manipulate_def valid_actions_def)
  moreover have "manipulate_star sf t tc (PStr a) p sv = ((if sv = None then 503 else 400), sv)"
    using assms by (cases sv) (simp_all add: manipulate_star_def)
  ultimately show ?thesis by simp
qed

theorem unknown_action_rejected_witness:
  "''explode'' \<notin> set valid_actions
   \<and> manipulate_star no_parse 5 5 (PStr ''explode'') (PDict [(''power'', PInt 9)])
       (Some (initialize False 1280 720))
     = (400, Some (initialize False 1280 720))
   \<and> manipulate no_parse 5 5 ''explode'' (PDict [(''power'', PInt 9)]) (initialize False 1280 720)
     = Inr (initialize False 1280 720)"
proof -
  have h: "''explode'' \<notin> set valid_actions"
    by (simp add: valid_actions_def)
  show ?thesis
    using h unknown_action_rejected [OF h, of no_parse 5 5 "PDict [(''power'', PInt 9)]"
        "Some (initialize False 1280 720)" "initialize False 1280 720"]
    by (simp add: prod_eq_iff)
qed

subsection \<open>Opacity and color parameters\<close>

text \<open>The clamp \<^verbatim>\<open>max(0.0, min(1.0, f))\<close> is a finite float between 0 and 1, whatever \<open>f\<close> is.\<close>

lemma clamp_cases:
  "py_max (Finite 0) (py_min (Finite 1) f) =
     (case f of Finite r \<Rightarrow> Finite (max 0 (min 1 r)) | PosInf \<Rightarrow> Finite 1
              | NegInf \<Rightarrow> Finite 0 | NaN \<Rightarrow> Finite 1)"
  by (cases f) (auto simp add: py_max_def py_min_def)

lemma clamp_range:
  "0 \<le> finite_val (py_max (Finite 0) (py_min (Finite 1) f))
   \<and> finite_val (py_max (Finite 0) (py_min (Finite 1) f)) \<le> 1"
  by (cases f) (auto simp add: clamp_cases)

lemma py_float_convertible:
  "convertible_number v \<Longrightarrow> \<exists>f. py_float sf v = Inr f"
  by (cases v) (simp_all add: convertible_number_def)

text \<open>
  Claim C7, as stated, fails for the numeric values that \<^verbatim>\<open>float\<close> cannot convert: the
  JSON integer \<open>2^1024\<close> as opacity makes \<^verbatim>\<open>float(opacity)\<close> raise \<^verbatim>\<open>OverflowError\<close>, so
  the call fails instead of clamping.
\<close>

theorem opacity_overflow_counterexample:
  "manipulate no_parse 5 5 ''opacity'' (PDict [(''opacity'', PInt (2 ^ 1024))])
     (initialize False 1280 720) = Inl OverflowError"
  by (simp add: manipulate_def params_get_def int_float_limit_def)

lemma params_get_missing_or:
  assumes "missing_or kind key p" and "kind d"
  shows "\<exists>v. params_get p key d = Inr v \<and> kind v"
proof (cases p)
  case (PDict kvs)
  then show ?thesis
    using assms by (cases "map_of kvs key") (simp_all add: missing_or_def params_get_def)
qed (use assms in \<open>simp_all add: missing_or_def params_get_def\<close>)

text \<open>
  Claim C7, amended: for a parameter map (or none) whose opacity is missing or a number that
  \<^verbatim>\<open>float\<close> converts (any float, infinities and NaN included, or an int of magnitude
  below \<open>2^1024 - 2^970\<close>), \<^verbatim>\<open>manipulate('opacity')\<close> returns and the opacity is then in
  [0, 1]; for one whose color is missing or a string, \<^verbatim>\<open>manipulate('color')\<close> returns and
  the color then starts with \<open>#\<close>. Whenever either call returns, for any parameters, the
  opacity is in [0, 1] or unchanged, and the color starts with \<open>#\<close> or is unchanged.
\<close>

theorem opacity_color_normalised:
  "(missing_or convertible_number ''opacity'' p \<longrightarrow>
      (\<exists>s1. manipulate sf t tc ''opacity'' p self = Inr s1
            \<and> 0 \<le> opacity (state s1) \<and> opacity (state s1) \<le> 1
            \<and> color (state s1) = color (state self)))
   \<and> (missing_or is_string ''color'' q \<longrightarrow>
      (\<exists>s2. manipulate sf t tc ''color'' q self = Inr s2
            \<and> starts_with_hash (color (state s2))
            \<and> opacity (state s2) = opacity (state self)))
   \<and> (\<forall>s1. manipulate sf t tc ''opacity'' r self = Inr s1 \<longrightarrow>
          0 \<le> opacity (state s1) \<and> opacity (state s1) \<le> 1)
   \<and> (\<forall>s2. manipulate sf t tc ''color'' r self = Inr s2 \<longrightarrow>
          starts_with_hash (color (state s2)))"
proof (intro conjI impI allI)
  assume h: "missing_or convertible_number ''opacity'' p"
  then obtain v where v: "params_get p ''opacity'' (PFloat (Finite 1)) = Inr v"
    and c: "convertible_number v"
    using params_get_missing_or [of convertible_number "''opacity''" p "PFloat (Finite 1)"]
    by (auto simp add: convertible_number_def)
  from c obtain f where f: "py_float sf v = Inr f"
    using py_float_convertible by blast
  show "\<exists>s1. manipulate sf t tc ''opacity'' p self = Inr s1
            \<and> 0 \<le> opacity (state s1) \<and> opacity (state s1) \<le> 1
            \<and> color (state s1) = color (state self)"
    using v f clamp_range [of f] by (simp add: manipulate_def)
next
  assume h: "missing_or is_string ''color'' q"
  then obtain v where "params_get q ''color'' (PStr DEFAULT_COLOR) = Inr v" and "is_string v"
    using params_get_missing_or [of is_string "''color''" q "PStr DEFAULT_COLOR"]
    by (auto simp add: is_string_def)
  then obtain c where c: "params_get q ''color'' (PStr DEFAULT_COLOR) = Inr (PStr c)"
    by (cases v) (simp_all add: is_string_def)
  show "\<exists>s2. manipulate sf t tc ''color'' q self = Inr s2
            \<and> starts_with_hash (color (state s2))
            \<and> opacity (state s2) = opacity (state self)"
    using c by (cases c) (simp_all add: manipulate_def starts_with_hash_def)
next
  fix s1 assume "manipulate sf t tc ''opacity'' r self = Inr s1"
  then show "0 \<le> opacity (state s1)" and "opacity (state s1) \<le> 1"
    using clamp_range by (auto simp add: manipulate_def split: sum.splits)
next
  fix s2 assume "manipulate sf t tc ''color'' r self = Inr s2"
  then show "starts_with_hash (color (state s2))"
    by (auto simp add: manipulate_def starts_with_hash_def
        split: sum.splits pyval.splits list.splits if_splits)
qed

theorem opacity_color_normalised_witness:
  "missing_or convertible_number ''opacity'' (PDict [(''opacity'', PFloat (Finite 1.5))])
   \<and> missing_or is_string ''color'' (PDict [(''color'', PStr ''ff0000'')])
   \<and> (\<exists>s1. manipulate no_parse 5 5 ''opacity'' (PDict [(''opacity'', PFloat (Finite 1.5))])
              (initialize False 1280 720) = Inr s1
            \<and> 0 \<le> opacity (state s1) \<and> opacity (state s1) \<le> 1)
   \<and> (\<exists>s2. manipulate no_parse 5 5 ''color'' (PDict [(''color'', PStr ''ff0000'')])
              (initialize False 1280 720) = Inr s2
            \<and> starts_with_hash (color (state s2)))"
proof -
  have h1: "missing_or convertible_number ''opacity'' (PDict [(''opacity'', PFloat (Finite 1.5))])"
    by (simp add: missing_or_def convertible_number_def)
  have h2: "missing_or is_string ''color'' (PDict [(''color'', PStr ''ff0000'')])"
    by (simp add: missing_or_def is_string_def)
  show ?thesis
    using h1 h2
      opacity_color_normalised [of "PDict [(''opacity'', PFloat (Finite 1.5))]" no_parse 5 5
        "initialize False 1280 720" "PDict [(''color'', PStr ''ff0000'')]" PNone]
    by blast
qed

subsection \<open>Commands\<close>

text \<open>The three commands that start a timed motion effect always return.\<close>

lemma manipulate_spin_out:
  "manipulate sf t tc ''spin_out'' p self =
     Inr (self\<lparr>state := (cancel_spin_out (cancel_drill tc (state self)))
                            \<lparr>rotation_speed := 1,
                             spin_out_phase := Some ''ramp'',
                             spin_out_ramp_start := t,
                             effect_active := Some ''spin_out''\<rparr>\<rparr>)"
  by (simp add: manipulate_def)

lemma manipulate_drill:
  "manipulate sf t tc ''drill'' p self =
     Inr (self\<lparr>state := (cancel_spin_out (state self))
                            \<lparr>drill_saved_vx := vx (state self),
                             drill_saved_vy := vy (state self),
                             vx := 0,
                             vy := 0,
                             rotation_speed := 10,
                             drill_end_time := t + 3,
                             effect_active := Some ''drill''\<rparr>\<rparr>)"
  by (simp add: manipulate_def Let_def cancel_spin_out_def)

lemma manipulate_corner_trap:
  "manipulate sf t tc ''corner_trap'' p self =
     Inr (self\<lparr>state := (state self)
                            \<lparr>saved_vx := vx (state self),
                             saved_vy := vy (state self),
                             vx := 0,
                             vy := 0,
                             corner_trapped := True,
                             trap_corner_x := real_of_int (fst (nearest_corner self)),
                             trap_corner_y := real_of_int (snd (nearest_corner self)),
                             effect_active := Some ''corner_trap'',
                             effect_start_time := t\<rparr>\<rparr>)"
  by (simp add: manipulate_def Let_def)

text \<open>What any command does to the spin-out phase and to the end time of the drill.\<close>

lemma manipulate_spin_out_phase:
  assumes "manipulate sf t tc a p self = Inr self'"
  shows "spin_out_phase (state self') =
           (if a = ''spin_out'' then Some ''ramp''
            else if a = ''drill'' \<and> phase_truthy (spin_out_phase (state self)) then None
            else if a = ''reset'' then None
            else spin_out_phase (state self))"
  using assms
  by (auto simp add: manipulate_def Let_def cancel_spin_out_def reset_state_def
      split: if_splits sum.splits pyval.splits)

lemma manipulate_drill_end_time:
  assumes "manipulate sf t tc a p self = Inr self'"
  shows "drill_end_time (state self') =
           (if a = ''spin_out'' \<and> drill_end_time (state self) > tc then 0
            else if a = ''drill'' then t + 3
            else if a = ''reset'' then 0
            else drill_end_time (state self))"
  using assms
  by (auto simp add: manipulate_def Let_def cancel_spin_out_def cancel_drill_def reset_state_def
      split: if_splits sum.splits pyval.splits)

subsection \<open>Spin-out and drill\<close>

text \<open>
  In every reachable state the phase is absent, ramp or decay, the end time of the drill is
  not negative, and a phase that is present comes with a drill that is over at the latest
  reading of the clock.
\<close>

lemma reachable_phase_drill:
  assumes "reachable c self"
  shows "0 < c
         \<and> spin_out_phase (state self) \<in> {None, Some ''ramp'', Some ''decay''}
         \<and> 0 \<le> drill_end_time (state self)
         \<and> (spin_out_phase (state self) \<noteq> None \<longrightarrow> drill_end_time (state self) \<le> c)"
  using assms
proof (induction rule: reachable.induct)
  case (start c fs w h)
  then show ?case by (simp add: initialize_def StarState_default_def)
next
  case (command c self current_time cancel_time sf action parameters self')
  note ph = manipulate_spin_out_phase [OF command.hyps(5)]
  note dr = manipulate_drill_end_time [OF command.hyps(5)]
  have pos: "0 < cancel_time" using command.hyps by linarith
  from command.IH have truthy: "spin_out_phase (state self) \<noteq> None \<Longrightarrow>
      phase_truthy (spin_out_phase (state self))"
    by (auto simp add: phase_truthy_def)
  show ?case
  proof (intro conjI impI)
    show "0 < cancel_time" by (rule pos)
    show "spin_out_phase (state self') \<in> {None, Some ''ramp'', Some ''decay''}"
      using command.IH by (simp add: ph)
    show "0 \<le> drill_end_time (state self')"
      using command.IH command.hyps by (simp add: dr)
    assume "spin_out_phase (state self') \<noteq> None"
    then show "drill_end_time (state self') \<le> cancel_time"
      using command.IH command.hyps truthy pos
      by (auto simp add: ph dr split: if_splits)
  qed
next
  case (tick c self f)
  show ?case
  proof (intro conjI impI)
    show "0 < effects_time f" using tick.IH tick.hyps by linarith
    show "spin_out_phase (state (update f self)) \<in> {None, Some ''ramp'', Some ''decay''}"
      using tick.IH by (auto simp add: update_field update_effects_def)
    show "0 \<le> drill_end_time (state (update f self))"
      using tick.IH by (simp add: update_field)
    assume ph: "spin_out_phase (state (update f self)) \<noteq> None"
    have "spin_out_phase (state self) \<noteq> None"
      using ph by (auto simp add: update_field update_effects_def split: if_splits)
    then have "drill_end_time (state self) \<le> effects_time f"
      using tick.IH tick.hyps by linarith
    then show "drill_end_time (state (update f self)) \<le> effects_time f"
      using tick.IH tick.hyps by (simp add: update_field)
  qed
qed

text \<open>
  Claim C1, as stated, fails: \<^verbatim>\<open>_cancel_drill\<close> cancels a drill only while its end time is
  in the future. A drill started at time 100 ends at 103; a \<^verbatim>\<open>spin_out\<close> command that
  arrives at time 103, before the next frame has cleared the timer, leaves
  \<open>drill_end_time = 103\<close> and sets the phase to ramp: both are set in a reachable state.
\<close>

theorem spin_out_drill_counterexample:
  "reachable 103
     (projr (manipulate no_parse 103 103 ''spin_out'' PNone
        (projr (manipulate no_parse 100 100 ''drill'' PNone (initialize False 1280 720)))))
   \<and> spin_out_phase (state
        (projr (manipulate no_parse 103 103 ''spin_out'' PNone
           (projr (manipulate no_parse 100 100 ''drill'' PNone (initialize False 1280 720))))))
      = Some ''ramp''
   \<and> drill_end_time (state
        (projr (manipulate no_parse 103 103 ''spin_out'' PNone
           (projr (manipulate no_parse 100 100 ''drill'' PNone (initialize False 1280 720))))))
      = 103"
proof -
  let ?s0 = "initialize False 1280 720"
  let ?s1 = "projr (manipulate no_parse 100 100 ''drill'' PNone ?s0)"
  let ?s2 = "projr (manipulate no_parse 103 103 ''spin_out'' PNone ?s1)"
  have r0: "reachable 1 ?s0" by (rule reachable.start) simp
  have m1: "manipulate no_parse 100 100 ''drill'' PNone ?s0 = Inr ?s1"
    by (simp add: manipulate_drill)
  have r1: "reachable 100 ?s1"
    by (rule reachable.command [OF r0 _ _ _ m1]) simp_all
  have m2: "manipulate no_parse 103 103 ''spin_out'' PNone ?s1 = Inr ?s2"
    by (simp add: manipulate_spin_out)
  have r2: "reachable 103 ?s2"
    by (rule reachable.command [OF r1 _ _ _ m2]) simp_all
  have "spin_out_phase (state ?s2) = Some ''ramp''"
    by (simp add: manipulate_spin_out)
  moreover have "drill_end_time (state ?s2) = 103"
    by (simp add: manipulate_spin_out manipulate_drill cancel_spin_out_def cancel_drill_def
        phase_truthy_def initialize_def StarState_default_def)
  ultimately show ?thesis using r2 by simp
qed

text \<open>
  Claim C1, amended: in every reachable state a spin-out phase never coexists with a drill
  whose end time is still in the future (a phase that is set comes with \<open>drill_end_time\<close>
  at most the latest clock reading), and after every frame the two are never both set.
  A \<^verbatim>\<open>drill\<close> command leaves no phase; a \<^verbatim>\<open>spin_out\<close> command that finds a drill whose
  end time is in the future clears the end time and restores the velocity saved by the drill.
\<close>

theorem spin_out_drill_exclusive:
  assumes "reachable c self"
  shows "(spin_out_phase (state self) \<noteq> None \<longrightarrow> drill_end_time (state self) \<le> c)
         \<and> (c \<le> heartbeat_time f \<and> heartbeat_time f \<le> effects_time f \<and> random_ok f \<longrightarrow>
              \<not> (spin_out_phase (state (update f self)) \<noteq> None
                 \<and> drill_end_time (state (update f self)) > 0))
         \<and> (\<exists>s1. manipulate sf t tc ''drill'' p self = Inr s1
                 \<and> spin_out_phase (state s1) = None)
         \<and> (\<exists>s2. manipulate sf t tc ''spin_out'' p self = Inr s2
                 \<and> (0 \<le> tc \<longrightarrow> \<not> drill_end_time (state s2) > tc)
                 \<and> (drill_end_time (state self) > tc \<longrightarrow>
                      drill_end_time (state s2) = 0
                      \<and> vx (state s2) = drill_saved_vx (state self)
                      \<and> vy (state s2) = drill_saved_vy (state self)))"
proof (intro conjI)
  note inv = reachable_phase_drill [OF assms]
  show "spin_out_phase (state self) \<noteq> None \<longrightarrow> drill_end_time (state self) \<le> c"
    using inv by simp
  show "c \<le> heartbeat_time f \<and> heartbeat_time f \<le> effects_time f \<and> random_ok f \<longrightarrow>
          \<not> (spin_out_phase (state (update f self)) \<noteq> None
             \<and> drill_end_time (state (update f self)) > 0)"
  proof (intro impI)
    assume h: "c \<le> heartbeat_time f \<and> heartbeat_time f \<le> effects_time f \<and> random_ok f"
    then have "reachable (effects_time f) (update f self)"
      using assms reachable.tick [of c self f] by blast
    note inv' = reachable_phase_drill [OF this]
    show "\<not> (spin_out_phase (state (update f self)) \<noteq> None
             \<and> drill_end_time (state (update f self)) > 0)"
    proof
      assume b: "spin_out_phase (state (update f self)) \<noteq> None
                 \<and> drill_end_time (state (update f self)) > 0"
      then have "drill_end_time (state (update f self)) \<le> effects_time f"
        using inv' by simp
      moreover have "drill_end_time (state (update f self)) = drill_end_time (state self)"
        using b by (simp add: update_field split: if_splits)
      ultimately show False using b by (simp add: update_field)
    qed
  qed
  have truthy: "spin_out_phase (state self) \<noteq> None \<Longrightarrow>
      phase_truthy (spin_out_phase (state self))"
    using inv by (auto simp add: phase_truthy_def)
  show "\<exists>s1. manipulate sf t tc ''drill'' p self = Inr s1 \<and> spin_out_phase (state s1) = None"
  proof (cases "spin_out_phase (state self)")
    case None
    then show ?thesis by (simp add: manipulate_drill cancel_spin_out_def)
  next
    case (Some ph)
    then show ?thesis using truthy by (simp add: manipulate_drill cancel_spin_out_def)
  qed
  show "\<exists>s2. manipulate sf t tc ''spin_out'' p self = Inr s2
             \<and> (0 \<le> tc \<longrightarrow> \<not> drill_end_time (state s2) > tc)
             \<and> (drill_end_time (state self) > tc \<longrightarrow>
                  drill_end_time (state s2) = 0
                  \<and> vx (state s2) = drill_saved_vx (state self)
                  \<and> vy (state s2) = drill_saved_vy (state self))"
    by (simp add: manipulate_spin_out cancel_spin_out_def cancel_drill_def)
qed

theorem spin_out_drill_exclusive_witness:
  "reachable 5 (projr (manipulate no_parse 5 5 ''spin_out'' PNone (initialize False 1280 720)))
   \<and> spin_out_phase
        (state (projr (manipulate no_parse 5 5 ''spin_out'' PNone (initialize False 1280 720))))
       = Some ''ramp''
   \<and> drill_end_time
        (state (projr (manipulate no_parse 5 5 ''spin_out'' PNone (initialize False 1280 720))))
       \<le> 5
   \<and> random_ok \<lparr>heartbeat_time = 6, effects_time = 6, random_x = 0.5, random_y = 0.5\<rparr>
   \<and> drill_end_time
        (state (update \<lparr>heartbeat_time = 6, effects_time = 6, random_x = 0.5, random_y = 0.5\<rparr>
           (projr (manipulate no_parse 5 5 ''spin_out'' PNone (initialize False 1280 720)))))
       \<le> 0"
proof -
  let ?s0 = "initialize False 1280 720"
  let ?s1 = "projr (manipulate no_parse 5 5 ''spin_out'' PNone ?s0)"
  let ?f = "\<lparr>heartbeat_time = 6, effects_time = 6, random_x = 0.5, random_y = 0.5\<rparr>"
  have r0: "reachable 1 ?s0" by (rule reachable.start) simp
  have m1: "manipulate no_parse 5 5 ''spin_out'' PNone ?s0 = Inr ?s1"
    by (simp add: manipulate_spin_out)
  have r1: "reachable 5 ?s1"
    by (rule reachable.command [OF r0 _ _ _ m1]) simp_all
  have ph: "spin_out_phase (state ?s1) = Some ''ramp''"
    by (simp add: manipulate_spin_out)
  have ok: "random_ok ?f" by (simp add: random_ok_def)
  have ph': "spin_out_phase (state (update ?f ?s1)) \<noteq> None"
    using ph by (simp add: update_field update_effects_def)
  show ?thesis
    using r1 ph ok ph' spin_out_drill_exclusive [OF r1, of ?f no_parse 5 5 PNone]
    by simp
qed

subsection \<open>The position step\<close>

lemma update_as_position:
  "x (state (update f self)) =
     x (state (update_position (random_x f) (random_y f) (before_position f self)))"
  "y (state (update f self)) =
     y (state (update_position (random_x f) (random_y f) (before_position f self)))"
  "vx (state (update f self)) =
     vx (state (update_position (random_x f) (random_y f) (before_position f self)))"
  "vy (state (update f self)) =
     vy (state (update_position (random_x f) (random_y f) (before_position f self)))"
  "wall_impact (state (update f self)) =
     wall_impact (state (update_position (random_x f) (random_y f) (before_position f self)))"
  by (simp_all add: update_def before_position_def Let_def)

lemma before_position_fields:
  "x (state (before_position f self)) = x (state self)"
  "y (state (before_position f self)) = y (state self)"
  "vx (state (before_position f self)) = vx (update_effects (effects_time f) (state self))"
  "vy (state (before_position f self)) = vy (update_effects (effects_time f) (state self))"
  "wall_impact (state (before_position f self)) = wall_impact (state self) * 0.85"
  "corner_trapped (state (before_position f self)) =
     corner_trapped (update_effects (effects_time f) (state self))"
  "drill_end_time (state (before_position f self)) =
     drill_end_time (update_effects (effects_time f) (state self))"
  "trap_corner_x (state (before_position f self)) = trap_corner_x (state self)"
  "trap_corner_y (state (before_position f self)) = trap_corner_y (state self)"
  "current_scale (state (before_position f self)) =
     current_scale (state self)
       + ((if shrink_end_time (update_effects (effects_time f) (state self)) = 0
           then 1 + heartbeat_pulse (update_heartbeat (heartbeat_time f) (state self)) * 0.08
           else target_scale (update_effects (effects_time f) (state self)))
          - current_scale (state self)) * 0.15"
  "display_width (before_position f self) = display_width self"
  "display_height (before_position f self) = display_height self"
  by (simp_all add: before_position_def update_effects_heartbeat)

lemma update_position_cases:
  "corner_trapped (state m) \<Longrightarrow>
     state (update_position rx ry m) =
       (state m)\<lparr>x := trap_corner_x (state m) + (rx - 0.5) * 40,
                 y := trap_corner_y (state m) + (ry - 0.5) * 40\<rparr>"
  "\<not> corner_trapped (state m) \<Longrightarrow> drill_end_time (state m) = 0 \<Longrightarrow>
     update_position rx ry m = update_bouncing_position m"
  "\<not> corner_trapped (state m) \<Longrightarrow> drill_end_time (state m) \<noteq> 0 \<Longrightarrow>
     update_position rx ry m = m"
  by (simp_all add: update_position_def Let_def)

lemma bounce_axis_speed: "\<bar>fst (bounce_axis p v r e)\<bar> = \<bar>v\<bar>"
  by (simp add: bounce_axis_def Let_def)

lemma bounce_axis_free:
  "\<not> snd (snd (bounce_axis p v r e)) \<Longrightarrow> bounce_axis p v r e = (v, p + v, False)"
  by (simp add: bounce_axis_def Let_def split: if_splits)

subsection \<open>Wall impact\<close>

lemma update_wall_impact:
  "wall_impact (state (update f self)) =
     (if frame_collides f self then 0.02 else wall_impact (state self) * 0.85)"
  by (auto simp add: update_as_position frame_collides_def update_position_def
      update_bouncing_position_def Let_def before_position_fields)

lemma run_frames_wall_impact:
  "no_collision fs self \<Longrightarrow>
     wall_impact (state (run_frames fs self)) = wall_impact (state self) * 0.85 ^ length fs"
proof (induction fs arbitrary: self)
  case Nil
  then show ?case by simp
next
  case (Cons f fs)
  then have "wall_impact (state (run_frames fs (update f self))) =
               wall_impact (state (update f self)) * 0.85 ^ length fs"
    by simp
  moreover have "wall_impact (state (update f self)) = wall_impact (state self) * 0.85"
    using Cons.prems by (simp add: update_wall_impact)
  ultimately show ?case by simp
qed

text \<open>
  Claim C8: a frame in which the bouncing step hits a wall leaves the wall impact at 0.02;
  over any run of \<open>n\<close> frames without such a collision, from any initial value, the wall
  impact is the initial value times \<open>0.85^n\<close>. (Numbers are reals here: the equality is
  that of exact arithmetic, which the floats of the program follow up to rounding.)
\<close>

theorem wall_impact_decay:
  "(frame_collides f self \<longrightarrow> wall_impact (state (update f self)) = 0.02)
   \<and> (no_collision fs self \<longrightarrow>
        wall_impact (state (run_frames fs self)) = wall_impact (state self) * 0.85 ^ length fs)"
  by (simp add: update_wall_impact run_frames_wall_impact)

lemma fmod_1_4: "fmod 1 4 = 1"
  by (simp add: fmod_def)

lemma heartbeat_at_1: "heartbeat_pulse (update_heartbeat 1 st) = 0"
  by (simp add: update_heartbeat_def Let_def fmod_1_4)

theorem wall_impact_decay_witness:
  "frame_collides \<lparr>heartbeat_time = 1, effects_time = 1, random_x = 0.5, random_y = 0.5\<rparr>
     (initialize True 200 200)
   \<and> wall_impact (state
        (update \<lparr>heartbeat_time = 1, effects_time = 1, random_x = 0.5, random_y = 0.5\<rparr>
           (initialize True 200 200))) = 0.02
   \<and> no_collision
        [\<lparr>heartbeat_time = 1, effects_time = 1, random_x = 0.5, random_y = 0.5\<rparr>,
         \<lparr>heartbeat_time = 1, effects_time = 1, random_x = 0.5, random_y = 0.5\<rparr>]
        ((initialize True 1280 720)
           \<lparr>state := (state (initialize True 1280 720))\<lparr>wall_impact := 0.02\<rparr>\<rparr>)
   \<and> wall_impact (state
        (run_frames
           [\<lparr>heartbeat_time = 1, effects_time = 1, random_x = 0.5, random_y = 0.5\<rparr>,
            \<lparr>heartbeat_time = 1, effects_time = 1, random_x = 0.5, random_y = 0.5\<rparr>]
           ((initialize True 1280 720)
              \<lparr>state := (state (initialize True 1280 720))\<lparr>wall_impact := 0.02\<rparr>\<rparr>)))
       = 0.01445"
proof -
  let ?f = "\<lparr>heartbeat_time = 1, effects_time = 1, random_x = 0.5, random_y = 0.5\<rparr>"
  let ?s0 = "initialize True 200 200"
  let ?s1 = "(initialize True 1280 720)
               \<lparr>state := (state (initialize True 1280 720))\<lparr>wall_impact := 0.02\<rparr>\<rparr>"
  have c: "frame_collides ?f ?s0"
    by (simp add: frame_collides_def hit_wall_def bounce_axis_def Let_def
        heartbeat_at_1 STAR_BASE_SIZE_def initialize_fields before_position_fields)
  have n1: "\<not> frame_collides ?f ?s1"
    by (simp add: frame_collides_def hit_wall_def bounce_axis_def Let_def
        heartbeat_at_1 STAR_BASE_SIZE_def initialize_fields before_position_fields)
  have n2: "\<not> frame_collides ?f (update ?f ?s1)"
    by (simp add: frame_collides_def hit_wall_def bounce_axis_def Let_def
        heartbeat_at_1 STAR_BASE_SIZE_def initialize_fields before_position_fields
        update_as_position update_field
        update_keeps update_position_def update_bouncing_position_def)
  have n: "no_collision [?f, ?f] ?s1"
    using n1 n2 by simp
  show ?thesis
    using c n wall_impact_decay [of ?f ?s0 "[]"] wall_impact_decay [of ?f ?s1 "[?f, ?f]"]
    by simp
qed

subsection \<open>The three regimes of the position\<close>

text \<open>
  Claim C9: in every frame of a reachable state, the state that \<^verbatim>\<open>update\<close> hands to its
  position step (after the effects of the frame have expired) is in exactly one of three
  cases, and the position follows that case alone: corner-trapped, the position becomes
  the trap corner plus the jitter; else with \<open>drill_end_time > 0\<close>, the position is not
  changed; else the bouncing step runs, which advances the position by the velocity (where
  no wall is hit) and otherwise puts it on the wall.
\<close>

theorem position_regimes:
  assumes "reachable c self"
  shows "(corner_trapped (state (before_position f self)) \<longrightarrow>
            x (state (update f self)) = trap_corner_x (state self) + (random_x f - 0.5) * 40
            \<and> y (state (update f self)) = trap_corner_y (state self) + (random_y f - 0.5) * 40)
         \<and> (\<not> corner_trapped (state (before_position f self))
              \<and> drill_end_time (state (before_position f self)) > 0 \<longrightarrow>
            x (state (update f self)) = x (state self)
            \<and> y (state (update f self)) = y (state self))
         \<and> (\<not> corner_trapped (state (before_position f self))
              \<and> \<not> drill_end_time (state (before_position f self)) > 0 \<longrightarrow>
            state (update_position (random_x f) (random_y f) (before_position f self))
              = state (update_bouncing_position (before_position f self))
            \<and> x (state (update f self)) = x (state (update_bouncing_position (before_position f self)))
            \<and> y (state (update f self)) = y (state (update_bouncing_position (before_position f self)))
            \<and> (\<not> hit_wall (before_position f self) \<longrightarrow>
                  x (state (update f self)) = x (state self) + vx (state (before_position f self))
                  \<and> y (state (update f self)) = y (state self) + vy (state (before_position f self))))"
proof -
  let ?m = "before_position f self"
  have nonneg: "0 \<le> drill_end_time (state ?m)"
    using reachable_phase_drill [OF assms] by (simp add: before_position_fields)
  have tc: "trap_corner_x (state ?m) = trap_corner_x (state self)"
    "trap_corner_y (state ?m) = trap_corner_y (state self)"
    "x (state ?m) = x (state self)" "y (state ?m) = y (state self)"
    by (simp_all add: before_position_fields)
  show ?thesis
  proof (intro conjI impI)
    assume "corner_trapped (state ?m)"
    then show "x (state (update f self)) = trap_corner_x (state self) + (random_x f - 0.5) * 40"
      and "y (state (update f self)) = trap_corner_y (state self) + (random_y f - 0.5) * 40"
      by (simp_all add: update_as_position update_position_cases(1) tc)
  next
    assume "\<not> corner_trapped (state ?m) \<and> drill_end_time (state ?m) > 0"
    then show "x (state (update f self)) = x (state self)"
      and "y (state (update f self)) = y (state self)"
      by (simp_all add: update_as_position update_position_cases(3) tc)
  next
    assume a: "\<not> corner_trapped (state ?m) \<and> \<not> drill_end_time (state ?m) > 0"
    then have z: "drill_end_time (state ?m) = 0"
      using nonneg by linarith
    have b: "update_position (random_x f) (random_y f) ?m = update_bouncing_position ?m"
      using a z by (simp add: update_position_cases(2))
    show "state (update_position (random_x f) (random_y f) ?m)
            = state (update_bouncing_position ?m)"
      by (simp only: b)
    show "x (state (update f self)) = x (state (update_bouncing_position ?m))"
      and "y (state (update f self)) = y (state (update_bouncing_position ?m))"
      by (simp_all only: update_as_position b)
    assume "\<not> hit_wall ?m"
    then have "\<not> snd (snd (bounce_axis (x (state ?m)) (vx (state ?m))
                   (STAR_BASE_SIZE * current_scale (state ?m) / 2) (display_width ?m)))"
      and "\<not> snd (snd (bounce_axis (y (state ?m)) (vy (state ?m))
                   (STAR_BASE_SIZE * current_scale (state ?m) / 2) (display_height ?m)))"
      by (simp_all add: hit_wall_def Let_def)
    then have "x (state (update_bouncing_position ?m)) = x (state ?m) + vx (state ?m)"
      and "y (state (update_bouncing_position ?m)) = y (state ?m) + vy (state ?m)"
      by (simp_all add: update_bouncing_position_def Let_def bounce_axis_free)
    then show "x (state (update f self)) = x (state self) + vx (state ?m)"
      and "y (state (update f self)) = y (state self) + vy (state ?m)"
      by (simp_all only: update_as_position b tc)
  qed
qed

theorem position_regimes_witness:
  "reachable 1 (initialize True 1280 720)
   \<and> \<not> corner_trapped (state (before_position
          \<lparr>heartbeat_time = 1, effects_time = 1, random_x = 0.5, random_y = 0.5\<rparr>
          (initialize True 1280 720)))
   \<and> \<not> drill_end_time (state (before_position
          \<lparr>heartbeat_time = 1, effects_time = 1, random_x = 0.5, random_y = 0.5\<rparr>
          (initialize True 1280 720))) > 0
   \<and> \<not> hit_wall (before_position
          \<lparr>heartbeat_time = 1, effects_time = 1, random_x = 0.5, random_y = 0.5\<rparr>
          (initialize True 1280 720))
   \<and> x (state (update \<lparr>heartbeat_time = 1, effects_time = 1, random_x = 0.5, random_y = 0.5\<rparr>
          (initialize True 1280 720))) = 640.5
   \<and> y (state (update \<lparr>heartbeat_time = 1, effects_time = 1, random_x = 0.5, random_y = 0.5\<rparr>
          (initialize True 1280 720))) = 360.5"
proof -
  let ?f = "\<lparr>heartbeat_time = 1, effects_time = 1, random_x = 0.5, random_y = 0.5\<rparr>"
  let ?s0 = "initialize True 1280 720"
  have r: "reachable 1 ?s0" by (rule reachable.start) simp
  have a: "\<not> corner_trapped (state (before_position ?f ?s0))"
    by (simp add: before_position_fields initialize_fields)
  have b: "\<not> drill_end_time (state (before_position ?f ?s0)) > 0"
    by (simp add: before_position_fields initialize_fields)
  have c: "\<not> hit_wall (before_position ?f ?s0)"
    by (simp add: hit_wall_def bounce_axis_def Let_def heartbeat_at_1 STAR_BASE_SIZE_def
        initialize_fields before_position_fields)
  have v: "vx (state (before_position ?f ?s0)) = 0.5" "vy (state (before_position ?f ?s0)) = 0.5"
    by (simp_all add: before_position_fields initialize_fields)
  show ?thesis
    using r a b c v position_regimes [OF r, of ?f]
    by (simp add: initialize_fields)
qed

subsection \<open>Drill\<close>

text \<open>
  While a drill runs on a state that is not corner-trapped, a frame before the end time
  keeps the timer, the saved velocity and the label, and starts no spin-out.
\<close>

lemma drill_frame:
  assumes "\<not> corner_trapped (state s)" and "drill_end_time (state s) = e"
    and "effect_active (state s) = Some ''drill''"
    and "spin_out_phase (state s) \<noteq> Some ''ramp''" and "spin_out_phase (state s) \<noteq> Some ''decay''"
    and "effects_time g < e"
  shows "\<not> corner_trapped (state (update g s)) \<and> drill_end_time (state (update g s)) = e
         \<and> effect_active (state (update g s)) = Some ''drill''
         \<and> spin_out_phase (state (update g s)) \<noteq> Some ''ramp''
         \<and> spin_out_phase (state (update g s)) \<noteq> Some ''decay''
         \<and> drill_saved_vx (state (update g s)) = drill_saved_vx (state s)
         \<and> drill_saved_vy (state (update g s)) = drill_saved_vy (state s)"
  using assms by (simp add: update_field) (simp add: update_effects_def)

lemma drill_frames:
  assumes "\<not> corner_trapped (state s)" and "drill_end_time (state s) = e"
    and "effect_active (state s) = Some ''drill''"
    and "spin_out_phase (state s) \<noteq> Some ''ramp''" and "spin_out_phase (state s) \<noteq> Some ''decay''"
    and "\<forall>g \<in> set fs. effects_time g < e"
  shows "\<not> corner_trapped (state (run_frames fs s)) \<and> drill_end_time (state (run_frames fs s)) = e
         \<and> effect_active (state (run_frames fs s)) = Some ''drill''
         \<and> spin_out_phase (state (run_frames fs s)) \<noteq> Some ''ramp''
         \<and> spin_out_phase (state (run_frames fs s)) \<noteq> Some ''decay''
         \<and> drill_saved_vx (state (run_frames fs s)) = drill_saved_vx (state s)
         \<and> drill_saved_vy (state (run_frames fs s)) = drill_saved_vy (state s)"
  using assms
proof (induction fs arbitrary: s)
  case Nil
  then show ?case by simp
next
  case (Cons g fs)
  have g: "effects_time g < e" using Cons.prems(6) by simp
  note step = drill_frame [OF Cons.prems(1-5) g]
  have rest: "\<forall>g \<in> set fs. effects_time g < e" using Cons.prems(6) by simp
  from step have a: "\<not> corner_trapped (state (update g s))"
    and b: "drill_end_time (state (update g s)) = e"
    and c: "effect_active (state (update g s)) = Some ''drill''"
    and d: "spin_out_phase (state (update g s)) \<noteq> Some ''ramp''"
    and d': "spin_out_phase (state (update g s)) \<noteq> Some ''decay''"
    by simp_all
  show ?case
    using Cons.IH [OF a b c d d' rest] step by simp
qed

lemma velocity_after_heartbeat:
  "vx (update_effects e (update_heartbeat h st)) = vx (update_effects e st)"
  "vy (update_effects e (update_heartbeat h st)) = vy (update_effects e st)"
  by (simp_all add: update_effects_heartbeat del: update_effects_simple)

text \<open>The state right after a \<^verbatim>\<open>drill\<close> command.\<close>

lemma after_drill:
  "state (projr (manipulate sf t tc ''drill'' p self)) =
     (cancel_spin_out (state self))
       \<lparr>drill_saved_vx := vx (state self), drill_saved_vy := vy (state self),
        vx := 0, vy := 0, rotation_speed := 10, drill_end_time := t + 3,
        effect_active := Some ''drill''\<rparr>"
  by (simp add: manipulate_drill)

lemma cancel_spin_out_fields [simp]:
  "corner_trapped (cancel_spin_out st) = corner_trapped st"
  "vx (cancel_spin_out st) = vx st"
  "vy (cancel_spin_out st) = vy st"
  "saved_vx (cancel_spin_out st) = saved_vx st"
  "saved_vy (cancel_spin_out st) = saved_vy st"
  "drill_saved_vx (cancel_spin_out st) = drill_saved_vx st"
  "drill_saved_vy (cancel_spin_out st) = drill_saved_vy st"
  "drill_end_time (cancel_spin_out st) = drill_end_time st"
  "effect_start_time (cancel_spin_out st) = effect_start_time st"
  "spin_out_phase (cancel_spin_out st) \<noteq> Some ''ramp''"
  "spin_out_phase (cancel_spin_out st) \<noteq> Some ''decay''"
  by (auto simp add: cancel_spin_out_def phase_truthy_def split: option.splits)

text \<open>
  Claim C3, as stated, fails on a state that is corner-trapped: the trap and the drill each
  save and restore the velocity on their own. Trapped at time 100 with velocity (0.5, 0.5)
  and drilled at time 107, the drill saves the velocity (0, 0) of the trapped star; at time
  110 both run out in the same call of \<^verbatim>\<open>_update_effects\<close>, the drill restores (0, 0) and
  the trap then overwrites it with (0.5, 0.5).
\<close>

theorem drill_round_trip_counterexample:
  "vx (state (projr (manipulate no_parse 100 100 ''corner_trap'' PNone
         (initialize False 1280 720)))) = 0
   \<and> drill_saved_vx (state (projr (manipulate no_parse 107 107 ''drill'' PNone
         (projr (manipulate no_parse 100 100 ''corner_trap'' PNone
            (initialize False 1280 720)))))) = 0
   \<and> drill_end_time (state (projr (manipulate no_parse 107 107 ''drill'' PNone
         (projr (manipulate no_parse 100 100 ''corner_trap'' PNone
            (initialize False 1280 720)))))) = 110
   \<and> vx (update_effects 110 (state (projr (manipulate no_parse 107 107 ''drill'' PNone
         (projr (manipulate no_parse 100 100 ''corner_trap'' PNone
            (initialize False 1280 720))))))) = 0.5
   \<and> vx (state (update \<lparr>heartbeat_time = 110, effects_time = 110, random_x = 0.5, random_y = 0.5\<rparr>
         (projr (manipulate no_parse 107 107 ''drill'' PNone
           (projr (manipulate no_parse 100 100 ''corner_trap'' PNone
              (initialize False 1280 720))))))) \<noteq> 0"
proof -
  let ?s1 = "projr (manipulate no_parse 100 100 ''corner_trap'' PNone (initialize False 1280 720))"
  let ?s2 = "projr (manipulate no_parse 107 107 ''drill'' PNone ?s1)"
  let ?f = "\<lparr>heartbeat_time = 110, effects_time = 110, random_x = 0.5, random_y = 0.5\<rparr>"
  have s1: "vx (state ?s1) = 0" "vy (state ?s1) = 0" "saved_vx (state ?s1) = 0.5"
    "corner_trapped (state ?s1)" "effect_start_time (state ?s1) = 100"
    by (simp_all add: manipulate_corner_trap initialize_fields)
  have s2: "drill_saved_vx (state ?s2) = 0" "drill_end_time (state ?s2) = 110"
    "saved_vx (state ?s2) = 0.5" "corner_trapped (state ?s2)"
    "effect_start_time (state ?s2) = 100"
    using s1 by (simp_all add: after_drill)
  have e: "vx (update_effects 110 (state ?s2)) = 0.5"
    using s2 by simp
  have "\<bar>vx (state (update ?f ?s2))\<bar> = \<bar>vx (update_effects 110 (state ?s2))\<bar>"
    using s2
    by (simp add: update_as_position update_position_def update_bouncing_position_def Let_def
        before_position_fields bounce_axis_speed)
  then have "vx (state (update ?f ?s2)) \<noteq> 0"
    using e by simp
  then show ?thesis using s1 s2 e by simp
qed

text \<open>
  Claim C3, amended: from every state that is not corner-trapped, after \<^verbatim>\<open>manipulate('drill')\<close>
  at a time \<open>t > 0\<close> (which saves the velocity and zeroes it) and any run of frames before
  \<open>t + 3\<close>, the effects step of the first frame at or after \<open>t + 3\<close> sets the velocity to
  exactly the values saved at the start of the drill, clears \<open>drill_end_time\<close> to 0, restores
  the default rotation speed and clears the label. At the end of that frame the timer, the
  rotation speed and the label are as the effects step left them, and each component of the
  velocity has the saved magnitude (the bouncing step of the same frame may reflect it off
  a wall).
\<close>

theorem drill_round_trip:
  assumes "\<not> corner_trapped (state self)" and "0 < t"
    and "\<forall>g \<in> set fs. effects_time g < t + 3" and "t + 3 \<le> effects_time f"
  shows "\<exists>s1. manipulate sf t tc ''drill'' p self = Inr s1
           \<and> drill_saved_vx (state s1) = vx (state self)
           \<and> drill_saved_vy (state s1) = vy (state self)
           \<and> vx (state s1) = 0 \<and> vy (state s1) = 0
           \<and> drill_end_time (state s1) = t + 3
           \<and> vx (update_effects (effects_time f)
                  (update_heartbeat (heartbeat_time f) (state (run_frames fs s1)))) = vx (state self)
           \<and> vy (update_effects (effects_time f)
                  (update_heartbeat (heartbeat_time f) (state (run_frames fs s1)))) = vy (state self)
           \<and> drill_end_time (state (update f (run_frames fs s1))) = 0
           \<and> rotation_speed (state (update f (run_frames fs s1))) = default_rotation_speed
           \<and> effect_active (state (update f (run_frames fs s1))) = None
           \<and> \<bar>vx (state (update f (run_frames fs s1)))\<bar> = \<bar>vx (state self)\<bar>
           \<and> \<bar>vy (state (update f (run_frames fs s1)))\<bar> = \<bar>vy (state self)\<bar>"
proof -
  let ?s1 = "projr (manipulate sf t tc ''drill'' p self)"
  let ?s = "run_frames fs ?s1"
  have m: "manipulate sf t tc ''drill'' p self = Inr ?s1"
    by (simp add: manipulate_drill)
  have i: "\<not> corner_trapped (state ?s1)" "drill_end_time (state ?s1) = t + 3"
    "effect_active (state ?s1) = Some ''drill''"
    "spin_out_phase (state ?s1) \<noteq> Some ''ramp''" "spin_out_phase (state ?s1) \<noteq> Some ''decay''"
    "drill_saved_vx (state ?s1) = vx (state self)" "drill_saved_vy (state ?s1) = vy (state self)"
    "vx (state ?s1) = 0" "vy (state ?s1) = 0"
    using assms(1) by (simp_all add: after_drill)
  note d = drill_frames [OF i(1-5) assms(3)]
  have exp: "0 < drill_end_time (state ?s) \<and> drill_end_time (state ?s) \<le> effects_time f"
    using d assms(2,4) by simp
  have v: "vx (update_effects (effects_time f) (state ?s)) = vx (state self)"
    "vy (update_effects (effects_time f) (state ?s)) = vy (state self)"
    using d exp i(6,7) by simp_all
  have z: "drill_end_time (state (update f ?s)) = 0"
    using exp by (simp add: update_field)
  have r: "rotation_speed (state (update f ?s)) = default_rotation_speed"
    using d exp by (simp add: update_field) (simp add: update_effects_def)
  have l: "effect_active (state (update f ?s)) = None"
    using d exp by (simp add: update_field) (simp add: update_effects_def)
  have b: "\<bar>vx (state (update f ?s))\<bar> = \<bar>vx (update_effects (effects_time f) (state ?s))\<bar>"
    "\<bar>vy (state (update f ?s))\<bar> = \<bar>vy (update_effects (effects_time f) (state ?s))\<bar>"
    using d exp
    by (simp_all add: update_as_position update_position_def update_bouncing_position_def Let_def
        before_position_fields bounce_axis_speed)
  have v': "vx (update_effects (effects_time f) (update_heartbeat (heartbeat_time f) (state ?s)))
              = vx (state self)"
    "vy (update_effects (effects_time f) (update_heartbeat (heartbeat_time f) (state ?s)))
              = vy (state self)"
    using v by (simp_all only: velocity_after_heartbeat)
  have b': "\<bar>vx (state (update f ?s))\<bar> = \<bar>vx (state self)\<bar>"
    "\<bar>vy (state (update f ?s))\<bar> = \<bar>vy (state self)\<bar>"
    using b v by (simp_all only:)
  show ?thesis
    using m i(2,6,7,8,9) v' z r l b' by blast
qed

theorem drill_round_trip_witness:
  "\<not> corner_trapped (state (initialize False 1280 720)) \<and> (0::real) < 100
   \<and> effects_time \<lparr>heartbeat_time = 101, effects_time = 101, random_x = 0.5, random_y = 0.5\<rparr>
       < 100 + 3
   \<and> (100::real) + 3
       \<le> effects_time \<lparr>heartbeat_time = 103, effects_time = 103, random_x = 0.5, random_y = 0.5\<rparr>
   \<and> (\<exists>s1. manipulate no_parse 100 100 ''drill'' PNone (initialize False 1280 720) = Inr s1
         \<and> vx (state s1) = 0
         \<and> vx (update_effects 103 (update_heartbeat 103 (state (run_frames
              [\<lparr>heartbeat_time = 101, effects_time = 101, random_x = 0.5, random_y = 0.5\<rparr>] s1))))
            = 0.5
         \<and> drill_end_time (state (update
              \<lparr>heartbeat_time = 103, effects_time = 103, random_x = 0.5, random_y = 0.5\<rparr>
              (run_frames
                [\<lparr>heartbeat_time = 101, effects_time = 101, random_x = 0.5, random_y = 0.5\<rparr>] s1)))
            = 0)"
proof -
  let ?g = "\<lparr>heartbeat_time = 101, effects_time = 101, random_x = 0.5, random_y = 0.5\<rparr>"
  let ?f = "\<lparr>heartbeat_time = 103, effects_time = 103, random_x = 0.5, random_y = 0.5\<rparr>"
  have h1: "\<not> corner_trapped (state (initialize False 1280 720))"
    by (simp add: initialize_fields)
  have h2: "(0::real) < 100" by simp
  have h3: "\<forall>g \<in> set [?g]. effects_time g < 100 + 3" by simp
  have h4: "(100::real) + 3 \<le> effects_time ?f" by simp
  show ?thesis
    using h1 drill_round_trip [OF h1 h2 h3 h4, of no_parse 100 PNone]
    by (auto simp add: initialize_fields)
qed

subsection \<open>A drill restarted while it runs\<close>

lemma bounce_axis_zero: "fst (bounce_axis p 0 r e) = 0"
  by (simp add: bounce_axis_def Let_def)

text \<open>
  A star at rest that is not corner-trapped stays at rest through a frame, unless a drill
  runs out in that frame and restores another velocity.
\<close>

lemma rest_frame:
  assumes "\<not> corner_trapped (state s)" and "vx (state s) = 0" and "vy (state s) = 0"
    and "0 < drill_end_time (state s) \<and> drill_end_time (state s) \<le> effects_time g \<longrightarrow>
           drill_saved_vx (state s) = 0 \<and> drill_saved_vy (state s) = 0"
  shows "vx (state (update g s)) = 0 \<and> vy (state (update g s)) = 0
         \<and> \<not> corner_trapped (state (update g s))
         \<and> drill_saved_vx (state (update g s)) = drill_saved_vx (state s)
         \<and> drill_saved_vy (state (update g s)) = drill_saved_vy (state s)"
proof -
  have e: "vx (update_effects (effects_time g) (state s)) = 0"
    "vy (update_effects (effects_time g) (state s)) = 0"
    using assms by auto
  have "vx (state (update g s)) = 0" "vy (state (update g s)) = 0"
    using assms(1) e
    by (simp_all add: update_as_position update_position_def update_bouncing_position_def Let_def
        before_position_fields bounce_axis_zero del: update_effects_simple(18,19))
  then show ?thesis using assms(1) by (simp add: update_field)
qed

lemma rest_frames_during_drill:
  assumes "\<not> corner_trapped (state s)" and "vx (state s) = 0" and "vy (state s) = 0"
    and "drill_end_time (state s) = e" and "\<forall>g \<in> set fs. effects_time g < e"
  shows "vx (state (run_frames fs s)) = 0 \<and> vy (state (run_frames fs s)) = 0
         \<and> \<not> corner_trapped (state (run_frames fs s))
         \<and> drill_end_time (state (run_frames fs s)) = e"
  using assms
proof (induction fs arbitrary: s)
  case Nil
  then show ?case by simp
next
  case (Cons g fs)
  have g: "effects_time g < e" using Cons.prems(5) by simp
  have noexp: "0 < drill_end_time (state s) \<and> drill_end_time (state s) \<le> effects_time g \<longrightarrow>
                 drill_saved_vx (state s) = 0 \<and> drill_saved_vy (state s) = 0"
    using Cons.prems(4) g by simp
  note step = rest_frame [OF Cons.prems(1-3) noexp]
  have d: "drill_end_time (state (update g s)) = e"
    using Cons.prems(4) g by (simp add: update_field)
  have rest: "\<forall>g \<in> set fs. effects_time g < e" using Cons.prems(5) by simp
  from step have a: "\<not> corner_trapped (state (update g s))"
    and b: "vx (state (update g s)) = 0" and c: "vy (state (update g s)) = 0"
    by simp_all
  show ?case using Cons.IH [OF a b c d rest] by simp
qed

lemma rest_frames_forever:
  assumes "\<not> corner_trapped (state s)" and "vx (state s) = 0" and "vy (state s) = 0"
    and "drill_saved_vx (state s) = 0" and "drill_saved_vy (state s) = 0"
  shows "vx (state (run_frames fs s)) = 0 \<and> vy (state (run_frames fs s)) = 0"
  using assms
proof (induction fs arbitrary: s)
  case Nil
  then show ?case by simp
next
  case (Cons g fs)
  have sv: "0 < drill_end_time (state s) \<and> drill_end_time (state s) \<le> effects_time g \<longrightarrow>
              drill_saved_vx (state s) = 0 \<and> drill_saved_vy (state s) = 0"
    using Cons.prems(4,5) by simp
  note step = rest_frame [OF Cons.prems(1-3) sv]
  from step have a: "\<not> corner_trapped (state (update g s))"
    and b: "vx (state (update g s)) = 0" and c: "vy (state (update g s)) = 0"
    and d: "drill_saved_vx (state (update g s)) = 0"
    and e: "drill_saved_vy (state (update g s)) = 0"
    using Cons.prems(4,5) by simp_all
  show ?case using Cons.IH [OF a b c d e] by simp
qed

text \<open>
  Claim C10, as stated, fails when a corner trap runs out between the two drill commands:
  the velocity that the second drill saves is then the one the trap restored, not the zero
  left by the first drill. Trapped at time 100 with velocity (0.5, 0.5), drilled at 108
  (end time 111), the frame at 110 ends the trap and restores (0.5, 0.5); a drill at 110,
  while the first is still active, saves (0.5, 0.5), and its expiry at 113 restores
  (0.5, 0.5), not (0, 0).
\<close>

theorem drill_restart_counterexample:
  "drill_end_time (state
      (update \<lparr>heartbeat_time = 110, effects_time = 110, random_x = 0.5, random_y = 0.5\<rparr>
        (projr (manipulate no_parse 108 108 ''drill'' PNone
          (projr (manipulate no_parse 100 100 ''corner_trap'' PNone
            (initialize False 1280 720))))))) > 110
   \<and> drill_saved_vx (state
      (projr (manipulate no_parse 110 110 ''drill'' PNone
        (update \<lparr>heartbeat_time = 110, effects_time = 110, random_x = 0.5, random_y = 0.5\<rparr>
          (projr (manipulate no_parse 108 108 ''drill'' PNone
            (projr (manipulate no_parse 100 100 ''corner_trap'' PNone
              (initialize False 1280 720))))))))) = 0.5
   \<and> vx (update_effects 113 (state
      (projr (manipulate no_parse 110 110 ''drill'' PNone
        (update \<lparr>heartbeat_time = 110, effects_time = 110, random_x = 0.5, random_y = 0.5\<rparr>
          (projr (manipulate no_parse 108 108 ''drill'' PNone
            (projr (manipulate no_parse 100 100 ''corner_trap'' PNone
              (initialize False 1280 720)))))))))) = 0.5"
proof -
  let ?f = "\<lparr>heartbeat_time = 110, effects_time = 110, random_x = 0.5, random_y = 0.5\<rparr>"
  let ?s1 = "projr (manipulate no_parse 100 100 ''corner_trap'' PNone (initialize False 1280 720))"
  let ?s2 = "projr (manipulate no_parse 108 108 ''drill'' PNone ?s1)"
  let ?s3 = "update ?f ?s2"
  let ?s4 = "projr (manipulate no_parse 110 110 ''drill'' PNone ?s3)"
  have s1: "saved_vx (state ?s1) = 0.5" "corner_trapped (state ?s1)"
    "effect_start_time (state ?s1) = 100"
    by (simp_all add: manipulate_corner_trap initialize_fields)
  have s2: "drill_end_time (state ?s2) = 111" "saved_vx (state ?s2) = 0.5"
    "corner_trapped (state ?s2)" "effect_start_time (state ?s2) = 100"
    using s1 by (simp_all add: after_drill)
  have s3: "drill_end_time (state ?s3) = 111" "\<not> corner_trapped (state ?s3)"
    using s2 by (simp_all add: update_field)
  have "vx (state ?s3) = vx (update_effects 110 (state ?s2))"
    using s2
    by (simp add: update_as_position update_position_def Let_def before_position_fields
        del: update_effects_simple(18,19))
  then have v3: "vx (state ?s3) = 0.5"
    using s2 by simp
  have s4: "drill_saved_vx (state ?s4) = 0.5" "drill_end_time (state ?s4) = 113"
    "\<not> corner_trapped (state ?s4)"
    using v3 s3 by (simp_all add: after_drill)
  have "vx (update_effects 113 (state ?s4)) = 0.5"
    using s4 by simp
  then show ?thesis using s3 s4 by simp
qed

text \<open>
  Claim C10, amended: from a state that is not corner-trapped, after a \<^verbatim>\<open>drill\<close> command at
  time \<open>t0\<close> and any frames before \<open>t0 + 3\<close> the drill is still pending with velocity
  (0, 0); a second \<^verbatim>\<open>drill\<close> command then overwrites the saved velocity with (0, 0), and
  through every later run of frames, the expiry of the restarted drill included, the
  velocity stays (0, 0).
\<close>

theorem drill_restart_loses_velocity:
  assumes "\<not> corner_trapped (state self)" and "\<forall>g \<in> set fs1. effects_time g < t0 + 3"
  shows "\<exists>s1 s2. manipulate sf t0 tc0 ''drill'' p self = Inr s1
           \<and> drill_saved_vx (state s1) = vx (state self)
           \<and> drill_saved_vy (state s1) = vy (state self)
           \<and> drill_end_time (state (run_frames fs1 s1)) = t0 + 3
           \<and> manipulate sf t1 tc1 ''drill'' q (run_frames fs1 s1) = Inr s2
           \<and> drill_saved_vx (state s2) = 0 \<and> drill_saved_vy (state s2) = 0
           \<and> vx (state (run_frames fs2 s2)) = 0 \<and> vy (state (run_frames fs2 s2)) = 0"
proof -
  let ?s1 = "projr (manipulate sf t0 tc0 ''drill'' p self)"
  let ?r = "run_frames fs1 ?s1"
  let ?s2 = "projr (manipulate sf t1 tc1 ''drill'' q ?r)"
  have m1: "manipulate sf t0 tc0 ''drill'' p self = Inr ?s1"
    by (simp add: manipulate_drill)
  have m2: "manipulate sf t1 tc1 ''drill'' q ?r = Inr ?s2"
    by (simp add: manipulate_drill)
  have i: "\<not> corner_trapped (state ?s1)" "vx (state ?s1) = 0" "vy (state ?s1) = 0"
    "drill_end_time (state ?s1) = t0 + 3"
    "drill_saved_vx (state ?s1) = vx (state self)" "drill_saved_vy (state ?s1) = vy (state self)"
    using assms(1) by (simp_all add: after_drill)
  note r = rest_frames_during_drill [OF i(1-4) assms(2)]
  have j: "\<not> corner_trapped (state ?s2)" "vx (state ?s2) = 0" "vy (state ?s2) = 0"
    "drill_saved_vx (state ?s2) = 0" "drill_saved_vy (state ?s2) = 0"
    using r by (simp_all add: after_drill)
  note k = rest_frames_forever [OF j, of fs2]
  show ?thesis
    using m1 m2 i(5,6) r j(4,5) k by blast
qed

theorem drill_restart_loses_velocity_witness:
  "\<not> corner_trapped (state (initialize False 1280 720))
   \<and> effects_time \<lparr>heartbeat_time = 101, effects_time = 101, random_x = 0.5, random_y = 0.5\<rparr>
       < 100 + 3
   \<and> (\<exists>s1 s2. manipulate no_parse 100 100 ''drill'' PNone (initialize False 1280 720) = Inr s1
         \<and> drill_saved_vx (state s1) = 0.5
         \<and> manipulate no_parse 102 102 ''drill'' PNone
              (run_frames
                 [\<lparr>heartbeat_time = 101, effects_time = 101, random_x = 0.5, random_y = 0.5\<rparr>] s1)
             = Inr s2
         \<and> drill_saved_vx (state s2) = 0
         \<and> vx (state (run_frames
              [\<lparr>heartbeat_time = 106, effects_time = 106, random_x = 0.5, random_y = 0.5\<rparr>] s2))
            = 0)"
proof -
  let ?g = "\<lparr>heartbeat_time = 101, effects_time = 101, random_x = 0.5, random_y = 0.5\<rparr>"
  let ?h = "\<lparr>heartbeat_time = 106, effects_time = 106, random_x = 0.5, random_y = 0.5\<rparr>"
  have h1: "\<not> corner_trapped (state (initialize False 1280 720))"
    by (simp add: initialize_fields)
  have h2: "\<forall>g \<in> set [?g]. effects_time g < 100 + 3" by simp
  show ?thesis
    using h1 drill_restart_loses_velocity [OF h1 h2, of no_parse 100 PNone 102 102 PNone "[?h]"]
    by (auto simp add: initialize_fields)
qed

subsection \<open>Corner trap\<close>









subsection \<open>Spin-out\<close>

lemma cancel_fields [simp]:
  "spin_out_ramp_start (cancel_spin_out st) = spin_out_ramp_start st"
  "effect_active (cancel_spin_out st) = effect_active st"
  "drill_end_time (cancel_drill now st) = (if drill_end_time st > now then 0 else drill_end_time st)"
  by (simp_all add: cancel_spin_out_def cancel_drill_def)

text \<open>
  After a \<^verbatim>\<open>spin_out\<close> command whose clock reading under the lock is \<open>tc\<close>, frames at or
  after \<open>tc\<close> keep the start of the ramp, and once one frame has run no drill is pending.
\<close>

lemma spin_frame:
  assumes "spin_out_ramp_start (state s) = t"
    and "drill_end_time (state s) \<le> tc \<or> drill_end_time (state s) \<le> 0"
    and "tc \<le> effects_time g"
  shows "spin_out_ramp_start (state (update g s)) = t
         \<and> drill_end_time (state (update g s)) \<le> 0"
  using assms by (auto simp add: update_field)

lemma spin_frames:
  assumes "spin_out_ramp_start (state s) = t"
    and "drill_end_time (state s) \<le> tc \<or> drill_end_time (state s) \<le> 0"
    and "\<forall>h \<in> set fs. tc \<le> effects_time h"
  shows "spin_out_ramp_start (state (run_frames fs s)) = t
         \<and> (drill_end_time (state (run_frames fs s)) \<le> 0
            \<or> fs = [] \<and> drill_end_time (state (run_frames fs s)) \<le> tc)"
  using assms
proof (induction fs arbitrary: s)
  case Nil
  then show ?case by auto
next
  case (Cons g fs)
  have g: "tc \<le> effects_time g" using Cons.prems(3) by simp
  note step = spin_frame [OF Cons.prems(1,2) g]
  have a: "spin_out_ramp_start (state (update g s)) = t" using step by simp
  have b: "drill_end_time (state (update g s)) \<le> tc \<or> drill_end_time (state (update g s)) \<le> 0"
    using step by simp
  have rest: "\<forall>h \<in> set fs. tc \<le> effects_time h" using Cons.prems(3) by simp
  have c: "drill_end_time (state (update g s)) \<le> 0" using step by simp
  have "drill_end_time (state (run_frames fs (update g s))) \<le> 0"
    using c
  proof (induction fs arbitrary: s g)
    case Nil
    then show ?case by simp
  next
    case (Cons h hs)
    have "drill_end_time (state (update h (update g s))) \<le> 0"
      using Cons.prems by (simp add: update_field)
    then show ?case using Cons.IH [of h "update g s"] by simp
  qed
  then show ?case using Cons.IH [OF a b rest] by simp
qed

text \<open>The spin-out step of a frame, when no drill runs out in that frame.\<close>

lemma spin_step:
  assumes "\<not> (0 < drill_end_time st \<and> drill_end_time st \<le> e)"
  shows "rotation_speed (update_effects e st) =
           (if spin_out_phase st = Some ''ramp''
            then (if e - spin_out_ramp_start st < 2 then 1 + (e - spin_out_ramp_start st) * 5
                  else rotation_speed st)
            else if spin_out_phase st = Some ''decay''
            then (if rotation_speed st * 0.992 < 0.1 then default_rotation_speed
                  else rotation_speed st * 0.992)
            else rotation_speed st)"
    and "effect_active st = Some ''spin_out'' \<Longrightarrow> spin_out_phase st = Some ''decay''
           \<Longrightarrow> rotation_speed st * 0.992 < 0.1 \<Longrightarrow> effect_active (update_effects e st) = None"
proof -
  from assms have c: "drill_end_time st \<le> 0 \<or> e < drill_end_time st" by auto
  then show "rotation_speed (update_effects e st) =
           (if spin_out_phase st = Some ''ramp''
            then (if e - spin_out_ramp_start st < 2 then 1 + (e - spin_out_ramp_start st) * 5
                  else rotation_speed st)
            else if spin_out_phase st = Some ''decay''
            then (if rotation_speed st * 0.992 < 0.1 then default_rotation_speed
                  else rotation_speed st * 0.992)
            else rotation_speed st)"
    by (elim disjE) (simp_all add: update_effects_def)
  assume "effect_active st = Some ''spin_out''" "spin_out_phase st = Some ''decay''"
    "rotation_speed st * 0.992 < 0.1"
  then show "effect_active (update_effects e st) = None"
    using c by (elim disjE) (simp_all add: update_effects_def)
qed

lemma phase_step:
  "spin_out_phase st = Some ''ramp'' \<Longrightarrow>
     spin_out_phase (update_effects e st) =
       (if e - spin_out_ramp_start st < 2 then Some ''ramp'' else Some ''decay'')"
  "spin_out_phase st = Some ''ramp'' \<Longrightarrow> e - spin_out_ramp_start st < 2 \<Longrightarrow>
     rotation_speed (update_effects e st) = 1 + (e - spin_out_ramp_start st) * 5"
  by (simp_all add: update_effects_def)

lemma decay_phase_step:
  assumes "\<not> (0 < drill_end_time st \<and> drill_end_time st \<le> e)"
    and "spin_out_phase st = Some ''decay''"
  shows "spin_out_phase (update_effects e st) =
           (if rotation_speed st * 0.992 < 0.1 then None else Some ''decay'')"
proof -
  from assms(1) have "drill_end_time st \<le> 0 \<or> e < drill_end_time st" by auto
  then show ?thesis
    using assms(2) by (elim disjE) (simp_all add: update_effects_def)
qed

text \<open>
  Claim C5: \<^verbatim>\<open>manipulate('spin_out')\<close> at time \<open>t\<close> sets the rotation speed to 1 and the
  phase to ramp. In any run of frames that follows with no command in between (their clock
  readings not before the one the command made under the lock), a frame that finds the
  phase ramp sets the rotation speed to \<open>1 + elapsed * 5\<close>, a value below 11, when
  \<open>elapsed = now - t\<close> is below 2, and otherwise switches the phase to decay; a frame that
  finds the phase decay multiplies the rotation speed by 0.992, and when the product is
  below 0.1 restores the default 0.5, clears the phase, and clears the label if it was
  \<open>spin_out\<close>.
\<close>

theorem spin_out_phases:
  assumes "\<forall>h \<in> set fs. tc \<le> effects_time h" and "tc \<le> effects_time f"
  shows "\<exists>s1. manipulate sf t tc ''spin_out'' p self = Inr s1
           \<and> rotation_speed (state s1) = 1 \<and> spin_out_phase (state s1) = Some ''ramp''
           \<and> spin_out_ramp_start (state s1) = t \<and> effect_active (state s1) = Some ''spin_out''
           \<and> (spin_out_phase (state (run_frames fs s1)) = Some ''ramp''
                \<and> effects_time f - t < 2 \<longrightarrow>
              rotation_speed (state (update f (run_frames fs s1))) = 1 + (effects_time f - t) * 5
              \<and> rotation_speed (state (update f (run_frames fs s1))) < 11
              \<and> spin_out_phase (state (update f (run_frames fs s1))) = Some ''ramp'')
           \<and> (spin_out_phase (state (run_frames fs s1)) = Some ''ramp''
                \<and> \<not> effects_time f - t < 2 \<longrightarrow>
              spin_out_phase (state (update f (run_frames fs s1))) = Some ''decay'')
           \<and> (spin_out_phase (state (run_frames fs s1)) = Some ''decay''
                \<and> \<not> rotation_speed (state (run_frames fs s1)) * 0.992 < 0.1 \<longrightarrow>
              rotation_speed (state (update f (run_frames fs s1)))
                = rotation_speed (state (run_frames fs s1)) * 0.992
              \<and> spin_out_phase (state (update f (run_frames fs s1))) = Some ''decay'')
           \<and> (spin_out_phase (state (run_frames fs s1)) = Some ''decay''
                \<and> rotation_speed (state (run_frames fs s1)) * 0.992 < 0.1 \<longrightarrow>
              rotation_speed (state (update f (run_frames fs s1))) = 0.5
              \<and> spin_out_phase (state (update f (run_frames fs s1))) = None
              \<and> (effect_active (state (run_frames fs s1)) = Some ''spin_out'' \<longrightarrow>
                   effect_active (state (update f (run_frames fs s1))) = None))"
proof -
  let ?s1 = "projr (manipulate sf t tc ''spin_out'' p self)"
  let ?a = "run_frames fs ?s1"
  have m: "manipulate sf t tc ''spin_out'' p self = Inr ?s1"
    by (simp add: manipulate_spin_out)
  have i: "rotation_speed (state ?s1) = 1" "spin_out_phase (state ?s1) = Some ''ramp''"
    "spin_out_ramp_start (state ?s1) = t" "effect_active (state ?s1) = Some ''spin_out''"
    by (simp_all add: manipulate_spin_out)
  have d: "drill_end_time (state ?s1) \<le> tc \<or> drill_end_time (state ?s1) \<le> 0"
    by (simp add: manipulate_spin_out)
  note inv = spin_frames [OF i(3) d assms(1)]
  have start: "spin_out_ramp_start (state ?a) = t" using inv by simp
  have ramp1: "spin_out_phase (state ?a) = Some ''ramp'' \<and> effects_time f - t < 2 \<longrightarrow>
      rotation_speed (state (update f ?a)) = 1 + (effects_time f - t) * 5
      \<and> rotation_speed (state (update f ?a)) < 11
      \<and> spin_out_phase (state (update f ?a)) = Some ''ramp''"
    using start by (simp add: update_field phase_step)
  have ramp2: "spin_out_phase (state ?a) = Some ''ramp'' \<and> \<not> effects_time f - t < 2 \<longrightarrow>
      spin_out_phase (state (update f ?a)) = Some ''decay''"
    using start by (simp add: update_field phase_step)
  have nodrill: "spin_out_phase (state ?a) = Some ''decay'' \<Longrightarrow>
      \<not> (0 < drill_end_time (state ?a) \<and> drill_end_time (state ?a) \<le> effects_time f)"
  proof -
    assume dec: "spin_out_phase (state ?a) = Some ''decay''"
    have "fs \<noteq> []" using dec i(2) by auto
    then have "drill_end_time (state ?a) \<le> 0" using inv by simp
    then show ?thesis by simp
  qed
  have dec1: "spin_out_phase (state ?a) = Some ''decay''
        \<and> \<not> rotation_speed (state ?a) * 0.992 < 0.1 \<longrightarrow>
      rotation_speed (state (update f ?a)) = rotation_speed (state ?a) * 0.992
      \<and> spin_out_phase (state (update f ?a)) = Some ''decay''"
    using nodrill by (auto simp add: update_field spin_step(1) decay_phase_step)
  have dec2: "spin_out_phase (state ?a) = Some ''decay''
        \<and> rotation_speed (state ?a) * 0.992 < 0.1 \<longrightarrow>
      rotation_speed (state (update f ?a)) = 0.5
      \<and> spin_out_phase (state (update f ?a)) = None
      \<and> (effect_active (state ?a) = Some ''spin_out'' \<longrightarrow>
           effect_active (state (update f ?a)) = None)"
    using nodrill
    by (auto simp add: update_field spin_step decay_phase_step default_rotation_speed_def)
  show ?thesis
    using m i ramp1 ramp2 dec1 dec2 by blast
qed

theorem spin_out_phases_witness:
  "(5::real) \<le> effects_time \<lparr>heartbeat_time = 6, effects_time = 6, random_x = 0.5, random_y = 0.5\<rparr>
   \<and> (5::real) \<le> effects_time \<lparr>heartbeat_time = 8, effects_time = 8, random_x = 0.5, random_y = 0.5\<rparr>
   \<and> (\<exists>s1. manipulate no_parse 5 5 ''spin_out'' PNone (initialize False 1280 720) = Inr s1
         \<and> rotation_speed (state s1) = 1
         \<and> rotation_speed (state
              (update \<lparr>heartbeat_time = 6, effects_time = 6, random_x = 0.5, random_y = 0.5\<rparr>
                 (run_frames [] s1))) = 6
         \<and> spin_out_phase (state
              (update \<lparr>heartbeat_time = 8, effects_time = 8, random_x = 0.5, random_y = 0.5\<rparr>
                 (run_frames
                    [\<lparr>heartbeat_time = 6, effects_time = 6, random_x = 0.5, random_y = 0.5\<rparr>] s1)))
            = Some ''decay'')"
proof -
  let ?g = "\<lparr>heartbeat_time = 6, effects_time = 6, random_x = 0.5, random_y = 0.5\<rparr>"
  let ?f = "\<lparr>heartbeat_time = 8, effects_time = 8, random_x = 0.5, random_y = 0.5\<rparr>"
  let ?s0 = "initialize False 1280 720"
  have h0: "\<forall>h \<in> set []. (5::real) \<le> effects_time h" by simp
  have h1: "\<forall>h \<in> set [?g]. (5::real) \<le> effects_time h" by simp
  have h2: "(5::real) \<le> effects_time ?g" by simp
  have h3: "(5::real) \<le> effects_time ?f" by simp
  show ?thesis
    using spin_out_phases [OF h0 h2, of no_parse 5 PNone ?s0]
      spin_out_phases [OF h1 h3, of no_parse 5 PNone ?s0]
    by (auto simp add: update_field phase_step)
qed


end
